theory Spec2Isabelle
  imports Main "HOL-Library.Word" "HOL-Library.Sublist"
begin

section \<open>Shared data: sync targets and Go errors\<close>

text \<open>\<^verbatim>\<open>interfaces.SyncTarget\<close>: the unit of management, field for field.\<close>

record SyncTarget =
  ID :: string
  RepoURL :: string
  RepoBranch :: string
  KubeConfigContent :: string
  PollIntervalSeconds :: int
  GitCredentials :: string
  ManifestPath :: string

text \<open>
  Go error values. \<open>ErrNotExist\<close> is an error of package \<^verbatim>\<open>os\<close> for which
  \<^verbatim>\<open>os.IsNotExist\<close> holds; \<open>ErrOther\<close> is any other error of the operating system or of
  a library, with its text; \<open>Errorf prefix cause\<close> is \<^verbatim>\<open>fmt.Errorf(prefix + ": %w", cause)\<close>;
  \<open>ErrorMsg\<close> is an error made from a text alone.
\<close>

datatype error =
    ErrNotExist
  | ErrOther string
  | Errorf string error
  | ErrorMsg string

text \<open>
  \<^verbatim>\<open>os.IsNotExist\<close> predates \<^verbatim>\<open>errors.Is\<close> and does not look through an error wrapped
  by \<^verbatim>\<open>fmt.Errorf\<close>.
\<close>

fun os_IsNotExist :: "error \<Rightarrow> bool" where
  "os_IsNotExist ErrNotExist = True"
| "os_IsNotExist _ = False"

text \<open>\<^verbatim>\<open>err.Error()\<close>, and \<^verbatim>\<open>%d\<close> of a non-negative number.\<close>

fun error_text :: "error \<Rightarrow> string" where
  "error_text ErrNotExist = ''no such file or directory''"
| "error_text (ErrOther msg) = msg"
| "error_text (Errorf context cause) = context @ '': '' @ error_text cause"
| "error_text (ErrorMsg msg) = msg"

definition digit_char :: "nat \<Rightarrow> char" where
  "digit_char n = ''0123456789'' ! (n mod 10)"

fun show_nat :: "nat \<Rightarrow> string" where
  "show_nat n = (if n < 10 then [digit_char n] else show_nat (n div 10) @ [digit_char (n mod 10)])"

definition quoted :: "string \<Rightarrow> string" where
  "quoted s = CHR 0x27 # s @ [CHR 0x27]"

section \<open>The file system as the storage and the poller see it\<close>

datatype file_state = Absent | Unreadable string | Content string

text \<open>
  \<open>file_at\<close> gives the state of every path; \<open>write_errors\<close> gives, for a path that cannot
  be written, the text of the error (a failed write is taken to leave the file as it was).
\<close>

record filesystem =
  file_at :: "string \<Rightarrow> file_state"
  write_errors :: "string \<Rightarrow> string option"

definition os_ReadFile :: "filesystem \<Rightarrow> string \<Rightarrow> error + string" where
  "os_ReadFile fs path =
     (case file_at fs path of
        Absent \<Rightarrow> Inl ErrNotExist
      | Unreadable msg \<Rightarrow> Inl (ErrOther msg)
      | Content bytes \<Rightarrow> Inr bytes)"

definition os_WriteFile :: "filesystem \<Rightarrow> string \<Rightarrow> string \<Rightarrow> error option \<times> filesystem" where
  "os_WriteFile fs path bytes =
     (case write_errors fs path of
        Some msg \<Rightarrow> (Some (ErrOther msg), fs)
      | None \<Rightarrow> (None, fs\<lparr>file_at := (file_at fs)(path := Content bytes)\<rparr>))"

section \<open>Encrypted catalog (package storage)\<close>

record EncryptedFileStorage =
  FilePath :: string
  EncryptionKey :: string

text \<open>
  \<^verbatim>\<open>synctarget.Decrypt\<close>, \<^verbatim>\<open>synctarget.Encrypt\<close> and the JSON coder of the standard
  library are not part of the storage code: they are parameters. A call of \<open>Encrypt\<close> draws
  a fresh nonce, so each call of the storage may be given its own \<open>codec\<close>.
\<close>

record codec =
  Decrypt :: "string \<Rightarrow> string \<Rightarrow> error + string"
  Encrypt :: "string \<Rightarrow> string \<Rightarrow> error + string"
  json_Unmarshal :: "string \<Rightarrow> error + SyncTarget list"
  json_MarshalIndent :: "SyncTarget list \<Rightarrow> error + string"

text \<open>
  \<^verbatim>\<open>LoadSyncTargets\<close> returns the Go pair (targets, err); a nil slice is the empty list.
\<close>

definition LoadSyncTargets ::
  "codec \<Rightarrow> EncryptedFileStorage \<Rightarrow> filesystem \<Rightarrow> SyncTarget list \<times> error option" where
  "LoadSyncTargets c s fs =
     (case os_ReadFile fs (FilePath s) of
        Inl err \<Rightarrow>
          if os_IsNotExist err then ([], None)
          else ([], Some (Errorf (''failed to read storage file '' @ quoted (FilePath s)) err))
      | Inr encryptedData \<Rightarrow>
          if length encryptedData = 0 then ([], None)
          else (case Decrypt c encryptedData (EncryptionKey s) of
                  Inl err \<Rightarrow>
                    ([], Some (Errorf (''failed to decrypt data from '' @ quoted (FilePath s)) err))
                | Inr decryptedData \<Rightarrow>
                    (case json_Unmarshal c decryptedData of
                       Inl err \<Rightarrow>
                         ([], Some (Errorf (''failed to unmarshal sync targets from JSON in ''
                                              @ quoted (FilePath s)) err))
                     | Inr targets \<Rightarrow> (targets, None))))"

text \<open>
  The loop of \<^verbatim>\<open>SaveSyncTarget\<close> over \<^verbatim>\<open>range targets\<close>: the first entry with the
  argument's ID is overwritten and the loop breaks; the flag \<open>found\<close> is returned with the
  slice.
\<close>

fun replace_first :: "SyncTarget list \<Rightarrow> SyncTarget \<Rightarrow> SyncTarget list \<times> bool" where
  "replace_first [] target = ([], False)"
| "replace_first (t # ts) target =
     (if ID t = ID target then (target # ts, True)
      else (case replace_first ts target of (ts', found) \<Rightarrow> (t # ts', found)))"

definition upsert :: "SyncTarget list \<Rightarrow> SyncTarget \<Rightarrow> SyncTarget list" where
  "upsert targets target =
     (case replace_first targets target of
        (targets', found) \<Rightarrow> if \<not> found then targets' @ [target] else targets')"

text \<open>The tail of \<^verbatim>\<open>SaveSyncTarget\<close>: encode, encrypt, write with mode 0600.\<close>

definition write_catalog ::
  "codec \<Rightarrow> EncryptedFileStorage \<Rightarrow> SyncTarget list \<Rightarrow> filesystem \<Rightarrow> error option \<times> filesystem" where
  "write_catalog c s targets fs =
     (case json_MarshalIndent c targets of
        Inl err \<Rightarrow> (Some (Errorf ''failed to marshal sync targets to JSON'' err), fs)
      | Inr jsonData \<Rightarrow>
          (case Encrypt c jsonData (EncryptionKey s) of
             Inl err \<Rightarrow> (Some (Errorf ''failed to encrypt sync targets data'' err), fs)
           | Inr encryptedData \<Rightarrow>
               (case os_WriteFile fs (FilePath s) encryptedData of
                  (Some err, fs') \<Rightarrow>
                    (Some (Errorf (''failed to write sync targets to file '' @ quoted (FilePath s)) err),
                     fs')
                | (None, fs') \<Rightarrow> (None, fs'))))"

definition SaveSyncTarget ::
  "codec \<Rightarrow> EncryptedFileStorage \<Rightarrow> SyncTarget \<Rightarrow> filesystem \<Rightarrow> error option \<times> filesystem" where
  "SaveSyncTarget c s target fs =
     (case LoadSyncTargets c s fs of
        (targets, Some err) \<Rightarrow>
          if \<not> os_IsNotExist err \<and> length targets = 0
          then write_catalog c s (upsert targets target) fs
          else (Some (Errorf ''failed to load existing sync targets before saving'' err), fs)
      | (targets, None) \<Rightarrow> write_catalog c s (upsert targets target) fs)"

text \<open>Concrete values on which the theorems below are exercised.\<close>

definition demo_target :: "string \<Rightarrow> string \<Rightarrow> SyncTarget" where
  "demo_target i url =
     \<lparr>ID = i, RepoURL = url, RepoBranch = ''main'', KubeConfigContent = ''apiVersion: v1'',
      PollIntervalSeconds = 60, GitCredentials = [], ManifestPath = ''k8s''\<rparr>"

definition demo_codec :: codec where
  "demo_codec =
     \<lparr>Decrypt = (\<lambda>bytes key.
         if take 4 bytes = ''enc:'' then Inr (drop 4 bytes)
         else Inl (ErrOther ''cipher: message authentication failed'')),
      Encrypt = (\<lambda>bytes key. Inr (''enc:'' @ bytes)),
      json_Unmarshal = (\<lambda>bytes.
         if bytes = ''a;b;'' then Inr [demo_target ''a'' ''u1'', demo_target ''b'' ''u2'']
         else Inl (ErrOther ''invalid character'')),
      json_MarshalIndent = (\<lambda>ts. Inr (concat (map (\<lambda>t. ID t @ '';'') ts)))\<rparr>"

definition demo_storage :: EncryptedFileStorage where
  "demo_storage = \<lparr>FilePath = ''synctargets.json.enc'', EncryptionKey = ''0123456789abcdef''\<rparr>"

definition demo_disk :: "file_state \<Rightarrow> filesystem" where
  "demo_disk f = \<lparr>file_at = (\<lambda>p. if p = ''synctargets.json.enc'' then f else Absent),
                  write_errors = (\<lambda>p. None)\<rparr>"

section \<open>Repository worktree (package gitpoller)\<close>

text \<open>
  \<^verbatim>\<open>GitPoller\<close>. The field \<open>repository\<close> tells whether \<^verbatim>\<open>gp.repository\<close> is non-nil,
  that is, whether \<^verbatim>\<open>InitializeRepo\<close> has opened or cloned the repository.
\<close>

record GitPoller =
  repoURL :: string
  repoBranch :: string
  localPath :: string
  manifestPathInRepo :: string
  lastCommitHash :: string
  repository :: bool

definition NewGitPoller :: "string \<Rightarrow> string \<Rightarrow> string \<Rightarrow> string \<Rightarrow> error + GitPoller" where
  "NewGitPoller url branch path manifestPath =
     (if url = [] \<or> branch = [] \<or> path = []
      then Inl (ErrorMsg ''repoURL, repoBranch, and localPath must be provided'')
      else if manifestPath = [] then Inl (ErrorMsg ''manifestPathInRepo must be provided'')
      else Inr \<lparr>repoURL = url, repoBranch = branch, localPath = path,
                manifestPathInRepo = manifestPath, lastCommitHash = [], repository = False\<rparr>)"

subsection \<open>What one poll finds outside the process\<close>

text \<open>
  An entry of the worktree as \<^verbatim>\<open>os.Lstat\<close> and \<^verbatim>\<open>os.ReadDir\<close> show it: a non-directory
  (a regular file, or a symbolic link, which neither call follows), a directory with its
  entries in the order \<^verbatim>\<open>ReadDir\<close> returns them, or a directory that cannot be read.
\<close>

datatype node = File | Dir "(string \<times> node) list" | BadDir error

datatype stat = NoEntry | StatErr error | Entry node

text \<open>
  A commit hash is 20 bytes (\<^verbatim>\<open>plumbing.Hash\<close>); \<^verbatim>\<open>String()\<close> writes it as 40 lower-case
  hexadecimal digits.
\<close>

definition hexdigit :: "nat \<Rightarrow> char" where
  "hexdigit n = ''0123456789abcdef'' ! (n mod 16)"

definition hash_String :: "160 word \<Rightarrow> string" where
  "hash_String h = map (\<lambda>i. hexdigit (unat (drop_bit (4 * (39 - i)) h))) [0..<40]"

text \<open>
  The world of one poll: how the fetch, hard reset and checkout of \<^verbatim>\<open>FetchLatest\<close> end,
  what \<^verbatim>\<open>repository.Head()\<close> gives afterwards, and the worktree by path.
\<close>

record world =
  fetch_outcome :: "error option"
  head :: "error + 160 word"
  lstat :: "string \<Rightarrow> stat"

definition FetchLatest :: "GitPoller \<Rightarrow> world \<Rightarrow> error option" where
  "FetchLatest gp w =
     (if \<not> repository gp
      then Some (ErrorMsg ''repository not initialized, call InitializeRepo first'')
      else fetch_outcome w)"

definition GetCurrentCommitHash :: "GitPoller \<Rightarrow> world \<Rightarrow> error + string" where
  "GetCurrentCommitHash gp w =
     (if \<not> repository gp then Inl (ErrorMsg ''repository not initialized'')
      else (case head w of
              Inl err \<Rightarrow> Inl (Errorf ''failed to get HEAD reference'' err)
            | Inr h \<Rightarrow> Inr (hash_String h)))"

subsection \<open>Listing the manifest files\<close>

text \<open>
  \<^verbatim>\<open>filepath.Ext\<close>: scan from the end up to the last path separator; the extension is the
  suffix that starts at the last dot, or empty.
\<close>

fun Ext_scan :: "string \<Rightarrow> string \<Rightarrow> string" where
  "Ext_scan [] seen = []"
| "Ext_scan (c # front) seen =
     (if c = CHR ''/'' then []
      else if c = CHR ''.'' then c # seen
      else Ext_scan front (c # seen))"

definition filepath_Ext :: "string \<Rightarrow> string" where
  "filepath_Ext path = Ext_scan (rev path) []"

text \<open>
  \<^verbatim>\<open>basename\<close> of package os, the name \<^verbatim>\<open>Lstat\<close> reports for the root of a walk: trailing
  slashes go (the first character stays), then everything up to the last slash.
\<close>

fun strip_slashes :: "string \<Rightarrow> string" where
  "strip_slashes (c # front) =
     (if c = CHR ''/'' \<and> front \<noteq> [] then strip_slashes front else c # front)"
| "strip_slashes [] = []"

definition basename :: "string \<Rightarrow> string" where
  "basename name =
     (case strip_slashes (rev name) of
        [] \<Rightarrow> []
      | c # front \<Rightarrow> rev (c # takeWhile (\<lambda>x. x \<noteq> CHR ''/'') front))"

text \<open>
  \<^verbatim>\<open>filepath.WalkDir\<close>, with the state of the callback passed along. A directory entry
  is its name and \<^verbatim>\<open>IsDir()\<close>. \<^verbatim>\<open>filepath.Join\<close> is the parameter \<open>join\<close>. The callback
  is called for the entry itself; a directory is then read, a read error is reported to the
  callback in a second call. The callbacks of this program return the error they are given
  and never \<^verbatim>\<open>SkipDir\<close>, so an error ends the walk.
\<close>

type_synonym DirEntry = "string \<times> bool"

type_synonym 's WalkDirFunc = "string \<Rightarrow> DirEntry option \<Rightarrow> error option \<Rightarrow> 's \<Rightarrow> error option \<times> 's"

fun IsDir :: "node \<Rightarrow> bool" where
  "IsDir File = False"
| "IsDir (Dir entries) = True"
| "IsDir (BadDir err) = True"

fun walkDir :: "(string \<Rightarrow> string \<Rightarrow> string) \<Rightarrow> 's WalkDirFunc \<Rightarrow> string \<Rightarrow> string \<Rightarrow> node \<Rightarrow> 's
                  \<Rightarrow> error option \<times> 's"
  and walkDirs :: "(string \<Rightarrow> string \<Rightarrow> string) \<Rightarrow> 's WalkDirFunc \<Rightarrow> string \<Rightarrow> (string \<times> node) list \<Rightarrow> 's
                  \<Rightarrow> error option \<times> 's" where
  "walkDir join fn path name File st = fn path (Some (name, False)) None st"
| "walkDir join fn path name (BadDir err) st =
     (case fn path (Some (name, True)) None st of
        (Some e, st') \<Rightarrow> (Some e, st')
      | (None, st') \<Rightarrow> fn path (Some (name, True)) (Some err) st')"
| "walkDir join fn path name (Dir entries) st =
     (case fn path (Some (name, True)) None st of
        (Some e, st') \<Rightarrow> (Some e, st')
      | (None, st') \<Rightarrow> walkDirs join fn path entries st')"
| "walkDirs join fn path [] st = (None, st)"
| "walkDirs join fn path ((name1, d1) # rest) st =
     (case walkDir join fn (join path name1) name1 d1 st of
        (Some e, st') \<Rightarrow> (Some e, st')
      | (None, st') \<Rightarrow> walkDirs join fn path rest st')"

definition WalkDir :: "(string \<Rightarrow> string \<Rightarrow> string) \<Rightarrow> world \<Rightarrow> string \<Rightarrow> 's WalkDirFunc \<Rightarrow> 's
                         \<Rightarrow> error option \<times> 's" where
  "WalkDir join w root fn st =
     (case lstat w root of
        NoEntry \<Rightarrow> fn root None (Some ErrNotExist) st
      | StatErr err \<Rightarrow> fn root None (Some err) st
      | Entry d \<Rightarrow> walkDir join fn root (basename root) d st)"

definition os_Stat :: "world \<Rightarrow> string \<Rightarrow> error option" where
  "os_Stat w path =
     (case lstat w path of NoEntry \<Rightarrow> Some ErrNotExist | StatErr err \<Rightarrow> Some err | Entry d \<Rightarrow> None)"

definition manifest_not_found :: "GitPoller \<Rightarrow> string \<Rightarrow> error" where
  "manifest_not_found gp manifestDir =
     ErrorMsg (''manifest directory '' @ quoted (manifestPathInRepo gp)
               @ '' not found in repository at path '' @ quoted manifestDir)"

text \<open>
  The callback of \<^verbatim>\<open>GetManifestFiles\<close>; its state is the slice \<^verbatim>\<open>files\<close>. The walk never
  calls it without an entry and without an error; Go would panic there on \<^verbatim>\<open>d.IsDir()\<close>.
\<close>

definition collect_manifest :: "GitPoller \<Rightarrow> string \<Rightarrow> string list WalkDirFunc" where
  "collect_manifest gp manifestDir path d err files =
     (case err of
        Some e \<Rightarrow>
          if os_IsNotExist e \<and> path = manifestDir \<and> d = None
          then (Some (manifest_not_found gp manifestDir), files)
          else (Some e, files)
      | None \<Rightarrow>
          (case d of
             None \<Rightarrow> (Some (ErrorMsg ''panic: nil DirEntry''), files)
           | Some (name, isDir) \<Rightarrow>
               if \<not> isDir
               then (let ext = filepath_Ext name
                     in if ext = ''.yaml'' \<or> ext = ''.yml'' then (None, files @ [path])
                        else (None, files))
               else (None, files)))"

definition GetManifestFiles ::
  "(string \<Rightarrow> string \<Rightarrow> string) \<Rightarrow> GitPoller \<Rightarrow> world \<Rightarrow> error + string list" where
  "GetManifestFiles join gp w =
     (if \<not> repository gp then Inl (ErrorMsg ''repository not initialized'')
      else (let manifestDir = join (localPath gp) (manifestPathInRepo gp)
            in case WalkDir join w manifestDir (collect_manifest gp manifestDir) [] of
                 (Some err, files) \<Rightarrow>
                   (case os_Stat w manifestDir of
                      Some statErr \<Rightarrow>
                        if os_IsNotExist statErr then Inl (manifest_not_found gp manifestDir)
                        else Inl (Errorf (''error walking manifest directory '' @ manifestDir) err)
                    | None \<Rightarrow>
                        Inl (Errorf (''error walking manifest directory '' @ manifestDir) err))
               | (None, files) \<Rightarrow> Inr files))"

subsection \<open>Polling\<close>

text \<open>\<^verbatim>\<open>Poll\<close> returns (changed, commitHash, manifestFiles, err) and the poller as it leaves it.\<close>

type_synonym poll_result = "bool \<times> string \<times> string list \<times> error option"

definition Poll ::
  "(string \<Rightarrow> string \<Rightarrow> string) \<Rightarrow> GitPoller \<Rightarrow> world \<Rightarrow> poll_result \<times> GitPoller" where
  "Poll join gp w =
     (if \<not> repository gp
      then ((False, [], [], Some (ErrorMsg ''repository not initialized, call InitializeRepo first'')),
            gp)
      else (case FetchLatest gp w of
              Some fetchErr \<Rightarrow> ((False, [], [], Some (Errorf ''failed during fetch'' fetchErr)), gp)
            | None \<Rightarrow>
                (case GetCurrentCommitHash gp w of
                   Inl hashErr \<Rightarrow>
                     ((False, [], [], Some (Errorf ''failed to get current commit hash'' hashErr)), gp)
                 | Inr newCommitHash \<Rightarrow>
                     if lastCommitHash gp = []
                     then (let gp' = gp\<lparr>lastCommitHash := newCommitHash\<rparr>
                           in case GetManifestFiles join gp' w of
                                Inl listErr \<Rightarrow>
                                  ((False, newCommitHash, [],
                                    Some (Errorf ''failed to list manifest files on initial poll''
                                            listErr)), gp')
                              | Inr files \<Rightarrow> ((True, newCommitHash, files, None), gp'))
                     else if newCommitHash \<noteq> lastCommitHash gp
                     then (let gp' = gp\<lparr>lastCommitHash := newCommitHash\<rparr>
                           in case GetManifestFiles join gp' w of
                                Inl listErr \<Rightarrow>
                                  ((True, newCommitHash, [],
                                    Some (Errorf
                                            ''new commit detected, but failed to list manifest files''
                                            listErr)), gp')
                              | Inr files \<Rightarrow> ((True, newCommitHash, files, None), gp'))
                     else ((False, lastCommitHash gp, [], None), gp))))"

subsection \<open>What lies beneath a path\<close>

text \<open>
  The non-directory entries at or beneath an entry, each with its path and its name, in the
  order of the walk; and whether every directory at or beneath it can be read.
\<close>

fun beneath :: "(string \<Rightarrow> string \<Rightarrow> string) \<Rightarrow> string \<Rightarrow> string \<Rightarrow> node \<Rightarrow> (string \<times> string) list"
  and beneath_entries ::
    "(string \<Rightarrow> string \<Rightarrow> string) \<Rightarrow> string \<Rightarrow> (string \<times> node) list \<Rightarrow> (string \<times> string) list" where
  "beneath join path name File = [(path, name)]"
| "beneath join path name (BadDir err) = []"
| "beneath join path name (Dir entries) = beneath_entries join path entries"
| "beneath_entries join path [] = []"
| "beneath_entries join path ((name1, d1) # rest) =
     beneath join (join path name1) name1 d1 @ beneath_entries join path rest"

fun readable :: "node \<Rightarrow> bool"
  and readable_entries :: "(string \<times> node) list \<Rightarrow> bool" where
  "readable File = True"
| "readable (BadDir err) = False"
| "readable (Dir entries) = readable_entries entries"
| "readable_entries [] = True"
| "readable_entries ((name1, d1) # rest) = (readable d1 \<and> readable_entries rest)"

definition is_manifest :: "string \<Rightarrow> bool" where
  "is_manifest name = (filepath_Ext name = ''.yaml'' \<or> filepath_Ext name = ''.yml'')"

definition manifests_beneath ::
  "(string \<Rightarrow> string \<Rightarrow> string) \<Rightarrow> string \<Rightarrow> node \<Rightarrow> string list" where
  "manifests_beneath join root d =
     map fst (filter (\<lambda>(path, name). is_manifest name) (beneath join root (basename root) d))"

section \<open>Target supervisor (package worker)\<close>

text \<open>
  The supervisor of one target calls \<^verbatim>\<open>ApplyManifestFile\<close> through its cluster handle; here
  the handle is a function on a cluster state \<open>'k\<close>. The supervisor's state is its poller,
  the cluster, and the log \<open>calls\<close> of the paths \<^verbatim>\<open>ApplyManifestFile\<close> was called with.
\<close>

type_synonym 'k applier = "string \<Rightarrow> 'k \<Rightarrow> error option \<times> 'k"

record 'k supervisor =
  poller :: GitPoller
  cluster :: 'k
  calls :: "string list"

text \<open>
  \<^verbatim>\<open>for _, mf := range manifestFiles\<close>: every file is applied, whether or not the one before
  it failed.
\<close>

fun apply_manifests :: "'k applier \<Rightarrow> string list \<Rightarrow> 'k supervisor \<Rightarrow> 'k supervisor" where
  "apply_manifests ap [] s = s"
| "apply_manifests ap (mf # mfs) s =
     (case ap mf (cluster s) of
        (err, k') \<Rightarrow> apply_manifests ap mfs (s\<lparr>cluster := k', calls := calls s @ [mf]\<rparr>))"

text \<open>The initial poll of \<^verbatim>\<open>manageSyncTarget\<close>: an error is logged, and nothing more.\<close>

definition initial_poll ::
  "(string \<Rightarrow> string \<Rightarrow> string) \<Rightarrow> 'k applier \<Rightarrow> 'k supervisor \<Rightarrow> world \<Rightarrow> 'k supervisor" where
  "initial_poll join ap s w =
     (case Poll join (poller s) w of
        ((changed, commitHash, manifestFiles, pollErr), gp') \<Rightarrow>
          if changed then apply_manifests ap manifestFiles (s\<lparr>poller := gp'\<rparr>)
          else s\<lparr>poller := gp'\<rparr>)"

text \<open>One tick of the polling loop: on an error the loop continues with the next tick.\<close>

definition tick ::
  "(string \<Rightarrow> string \<Rightarrow> string) \<Rightarrow> 'k applier \<Rightarrow> 'k supervisor \<Rightarrow> world \<Rightarrow> 'k supervisor" where
  "tick join ap s w =
     (case Poll join (poller s) w of
        ((changed, commitHash, manifestFiles, Some err), gp') \<Rightarrow> s\<lparr>poller := gp'\<rparr>
      | ((changed, commitHash, manifestFiles, None), gp') \<Rightarrow>
          if changed then apply_manifests ap manifestFiles (s\<lparr>poller := gp'\<rparr>)
          else s\<lparr>poller := gp'\<rparr>)"

text \<open>The loop up to the stop signal: one world for each tick that fires.\<close>

fun run_ticks ::
  "(string \<Rightarrow> string \<Rightarrow> string) \<Rightarrow> 'k applier \<Rightarrow> 'k supervisor \<Rightarrow> world list \<Rightarrow> 'k supervisor" where
  "run_ticks join ap s [] = s"
| "run_ticks join ap s (w # ws) = run_ticks join ap (tick join ap s w) ws"

text \<open>The poller after a sequence of polls, one world for each.\<close>

fun poller_after :: "(string \<Rightarrow> string \<Rightarrow> string) \<Rightarrow> GitPoller \<Rightarrow> world list \<Rightarrow> GitPoller" where
  "poller_after join gp [] = gp"
| "poller_after join gp (w # ws) = poller_after join (snd (Poll join gp w)) ws"

text \<open>Concrete pollers, worktrees and worlds on which the theorems below are exercised.\<close>

definition slash_join :: "string \<Rightarrow> string \<Rightarrow> string" where
  "slash_join dir name = dir @ ''/'' @ name"

definition demo_poller :: GitPoller where
  "demo_poller =
     \<lparr>repoURL = ''https://git.example/x.git'', repoBranch = ''main'',
      localPath = ''/tmp/go-argo-lite-repos/t1'', manifestPathInRepo = ''k8s'',
      lastCommitHash = [], repository = True\<rparr>"

definition demo_tree :: node where
  "demo_tree =
     Dir [(''README.md'', File), (''app.yaml'', File),
          (''nested'', Dir [(''B.YAML'', File), (''cm.yml'', File), (''old.yaml.bak'', File)]),
          (''svc.yml'', File)]"

definition demo_world :: "error option \<Rightarrow> error + 160 word \<Rightarrow> stat \<Rightarrow> world" where
  "demo_world f h t =
     \<lparr>fetch_outcome = f, head = h,
      lstat = (\<lambda>p. if p = ''/tmp/go-argo-lite-repos/t1/k8s'' then t else NoEntry)\<rparr>"

definition demo_applier :: "nat applier" where
  "demo_applier mf k = (None, Suc k)"

definition demo_supervisor :: "GitPoller \<Rightarrow> nat supervisor" where
  "demo_supervisor gp = \<lparr>poller = gp, cluster = 0, calls = []\<rparr>"

section \<open>Cluster applier (package kubehandler)\<close>

subsection \<open>Splitting and trimming\<close>

text \<open>
  \<^verbatim>\<open>strings.Index\<close>: the index of the first occurrence of \<open>sep\<close>, \<open>None\<close> for -1.
\<close>

fun strings_Index :: "string \<Rightarrow> string \<Rightarrow> nat option" where
  "strings_Index [] sep = (if sep = [] then Some 0 else None)"
| "strings_Index (c # cs) sep =
     (if prefix sep (c # cs) then Some 0 else map_option Suc (strings_Index cs sep))"

text \<open>
  \<^verbatim>\<open>strings.Split\<close> for a non-empty separator, the only use in this program: cut at the
  first occurrence, go on behind it. (With an empty separator Go splits into UTF-8
  sequences; the model gives the string back whole.)
\<close>

function strings_Split :: "string \<Rightarrow> string \<Rightarrow> string list" where
  "strings_Split s sep =
     (if sep = [] then [s]
      else (case strings_Index s sep of
              None \<Rightarrow> [s]
            | Some m \<Rightarrow> take m s # strings_Split (drop (m + length sep) s) sep))"
  by pat_completeness auto
termination
proof (relation "measure (\<lambda>(s, sep). length s)")
  show "wf (measure (\<lambda>(s, sep). length s))" by simp
next
  fix s sep :: string and m :: nat
  assume "sep \<noteq> []" and "strings_Index s sep = Some m"
  then have "s \<noteq> []" by (cases s) auto
  with \<open>sep \<noteq> []\<close> show "((drop (m + length sep) s, sep), (s, sep)) \<in> measure (\<lambda>(s, sep). length s)"
    by simp
qed

declare strings_Split.simps [simp del]

fun strings_Join :: "string list \<Rightarrow> string \<Rightarrow> string" where
  "strings_Join [] sep = []"
| "strings_Join [a] sep = a"
| "strings_Join (a # b # rest) sep = a @ sep @ strings_Join (b # rest) sep"

text \<open>
  \<^verbatim>\<open>strings.TrimSpace\<close> removes the leading and the trailing white space, as Unicode
  defines it, of a UTF-8 string. \<open>space_runes\<close> are the UTF-8 encodings of the code points
  for which \<^verbatim>\<open>unicode.IsSpace\<close> holds: tab, line feed, vertical tab, form feed, carriage
  return, space, U+0085, U+00A0, U+1680, U+2000 to U+200A, U+2028, U+2029, U+202F, U+205F
  and U+3000. A byte that starts no such encoding is not white space, whether it is valid
  UTF-8 or not.
\<close>

definition space_runes :: "string list" where
  "space_runes =
     [[CHR 0x09], [CHR 0x0A], [CHR 0x0B], [CHR 0x0C], [CHR 0x0D], [CHR 0x20],
      [CHR 0xC2, CHR 0x85], [CHR 0xC2, CHR 0xA0], [CHR 0xE1, CHR 0x9A, CHR 0x80],
      [CHR 0xE2, CHR 0x80, CHR 0x80], [CHR 0xE2, CHR 0x80, CHR 0x81],
      [CHR 0xE2, CHR 0x80, CHR 0x82], [CHR 0xE2, CHR 0x80, CHR 0x83],
      [CHR 0xE2, CHR 0x80, CHR 0x84], [CHR 0xE2, CHR 0x80, CHR 0x85],
      [CHR 0xE2, CHR 0x80, CHR 0x86], [CHR 0xE2, CHR 0x80, CHR 0x87],
      [CHR 0xE2, CHR 0x80, CHR 0x88], [CHR 0xE2, CHR 0x80, CHR 0x89],
      [CHR 0xE2, CHR 0x80, CHR 0x8A], [CHR 0xE2, CHR 0x80, CHR 0xA8],
      [CHR 0xE2, CHR 0x80, CHR 0xA9], [CHR 0xE2, CHR 0x80, CHR 0xAF],
      [CHR 0xE2, CHR 0x81, CHR 0x9F], [CHR 0xE3, CHR 0x80, CHR 0x80]]"

definition leading_space :: "string list \<Rightarrow> string \<Rightarrow> nat" where
  "leading_space runes s =
     (case find (\<lambda>r. prefix r s) runes of None \<Rightarrow> 0 | Some r \<Rightarrow> length r)"

function trim_left :: "string list \<Rightarrow> string \<Rightarrow> string" where
  "trim_left runes s =
     (if leading_space runes s = 0 \<or> s = [] then s
      else trim_left runes (drop (leading_space runes s) s))"
  by pat_completeness auto
termination
  by (relation "measure (\<lambda>(runes, s). length s)") auto

declare trim_left.simps [simp del]

definition strings_TrimSpace :: "string \<Rightarrow> string" where
  "strings_TrimSpace s = rev (trim_left (map rev space_runes) (rev (trim_left space_runes s)))"

subsection \<open>Objects, resources and requests\<close>

text \<open>What the applier reads from a decoded object (\<^verbatim>\<open>unstructured.Unstructured\<close>).\<close>

record Unstructured =
  GetKind :: string
  GetAPIVersion :: string
  GetName :: string
  GetNamespace :: string

record GroupVersionKind =
  Group :: string
  Version :: string
  Kind :: string

text \<open>\<^verbatim>\<open>metav1.APIResource\<close>: the plural name, whether namespaced, the kind.\<close>

record APIResource =
  res_Name :: string
  res_Namespaced :: bool
  res_Kind :: string

text \<open>
  A server-side apply: the call of \<^verbatim>\<open>Patch\<close> on the dynamic client for a
  group/version/resource, in a namespace or, with \<open>None\<close>, cluster-wide.
\<close>

record PatchRequest =
  Resource :: "string \<times> string \<times> string"
  Namespace :: "string option"
  PatchName :: string
  PatchType :: string
  PatchData :: string
  FieldManager :: string
  Force :: bool

datatype request = Discovery string | Apply PatchRequest

text \<open>
  The libraries and the cluster behind the handler's clients are parameters: the YAML and
  JSON decoders, the reading of group, version and kind from an object and their printing,
  discovery, and the patch call. The cluster has a state \<open>'k\<close>, which both calls may change.
\<close>

record 'k kube =
  YAMLToJSON :: "string \<Rightarrow> error + string"
  UnmarshalJSON :: "string \<Rightarrow> error + Unstructured"
  ObjGroupVersionKind :: "Unstructured \<Rightarrow> GroupVersionKind"
  GroupVersion_String :: "GroupVersionKind \<Rightarrow> string"
  GroupVersionKind_String :: "GroupVersionKind \<Rightarrow> string"
  ServerResourcesForGroupVersion :: "string \<Rightarrow> 'k \<Rightarrow> (error + APIResource list) \<times> 'k"
  Patch :: "PatchRequest \<Rightarrow> 'k \<Rightarrow> error option \<times> 'k"

text \<open>The cluster together with the log of the requests issued to it.\<close>

record 'k session =
  server :: 'k
  issued :: "request list"

definition findAPIResource ::
  "'k kube \<Rightarrow> GroupVersionKind \<Rightarrow> 'k session \<Rightarrow> (error + APIResource) \<times> 'k session" where
  "findAPIResource env gvk sess =
     (let gv = GroupVersion_String env gvk
      in case ServerResourcesForGroupVersion env gv (server sess) of
           (answer, k') \<Rightarrow>
             (let sess' = sess\<lparr>server := k', issued := issued sess @ [Discovery gv]\<rparr>
              in case answer of
                   Inl err \<Rightarrow>
                     (Inl (Errorf (''failed to discover server resources for GVG '' @ gv) err), sess')
                 | Inr resources \<Rightarrow>
                     (case find (\<lambda>resource. res_Kind resource = Kind gvk) resources of
                        Some resource \<Rightarrow> (Inr resource, sess')
                      | None \<Rightarrow>
                          (Inl (ErrorMsg (''resource kind '' @ quoted (Kind gvk)
                                          @ '' not found in group version '' @ quoted gv)),
                           sess'))))"

subsection \<open>Applying a manifest file\<close>

definition doc_label :: "nat \<Rightarrow> string" where
  "doc_label i = ''doc #'' @ show_nat (i + 1)"

definition make_request :: "GroupVersionKind \<Rightarrow> APIResource \<Rightarrow> Unstructured \<Rightarrow> string \<Rightarrow> PatchRequest" where
  "make_request gvk apiResource obj jsonData =
     \<lparr>Resource = (Group gvk, Version gvk, res_Name apiResource),
      Namespace = (if res_Namespaced apiResource
                   then Some (if GetNamespace obj = [] then ''default'' else GetNamespace obj)
                   else None),
      PatchName = GetName obj,
      PatchType = ''application/apply-patch+yaml'',
      PatchData = jsonData,
      FieldManager = ''go-argo-lite'',
      Force = True\<rparr>"

text \<open>
  The body of the loop of \<^verbatim>\<open>ApplyManifestFile\<close> for one trimmed, non-empty document with
  index \<open>i\<close>; the state is the slice \<^verbatim>\<open>applyErrors\<close> and the session.
\<close>

definition apply_doc ::
  "'k kube \<Rightarrow> nat \<Rightarrow> string \<Rightarrow> string list \<times> 'k session \<Rightarrow> string list \<times> 'k session" where
  "apply_doc env i doc st =
     (case st of (applyErrors, sess) \<Rightarrow>
        (case YAMLToJSON env doc of
           Inl err \<Rightarrow>
             (applyErrors @ [doc_label i @ '': YAML to JSON conversion failed: '' @ error_text err],
              sess)
         | Inr jsonData \<Rightarrow>
             (case UnmarshalJSON env jsonData of
                Inl err \<Rightarrow>
                  (applyErrors @ [doc_label i @ '': JSON unmarshalling failed: '' @ error_text err],
                   sess)
              | Inr obj \<Rightarrow>
                  if GetKind obj = [] \<or> GetAPIVersion obj = []
                  then (applyErrors @ [doc_label i @ '' ('' @ GetName obj
                                       @ ''): missing kind or apiVersion''], sess)
                  else (let gvk = ObjGroupVersionKind env obj
                        in case findAPIResource env gvk sess of
                             (Inl err, sess1) \<Rightarrow>
                               (applyErrors @ [doc_label i @ '' GVK '' @ GroupVersionKind_String env gvk
                                               @ '': API discovery failed: '' @ error_text err],
                                sess1)
                           | (Inr apiResource, sess1) \<Rightarrow>
                               (let req = make_request gvk apiResource obj jsonData
                                in case Patch env req (server sess1) of
                                     (answer, k') \<Rightarrow>
                                       (let sess2 = sess1\<lparr>server := k',
                                                          issued := issued sess1 @ [Apply req]\<rparr>
                                        in case answer of
                                             Some err \<Rightarrow>
                                               (applyErrors @ [doc_label i @ '' ('' @ GetKind obj
                                                               @ '' '' @ GetName obj
                                                               @ ''): apply failed: ''
                                                               @ error_text err], sess2)
                                           | None \<Rightarrow> (applyErrors, sess2)))))))"

text \<open>\<^verbatim>\<open>for i, doc := range yamlDocs\<close>: trim; skip what is empty; otherwise the body.\<close>

fun apply_docs ::
  "'k kube \<Rightarrow> nat \<Rightarrow> string list \<Rightarrow> string list \<times> 'k session \<Rightarrow> string list \<times> 'k session" where
  "apply_docs env i [] st = st"
| "apply_docs env i (doc # yamlDocs) st =
     (let doc' = strings_TrimSpace doc
      in apply_docs env (Suc i) yamlDocs (if doc' = [] then st else apply_doc env i doc' st))"

definition aggregate_error :: "string list \<Rightarrow> error" where
  "aggregate_error applyErrors =
     ErrorMsg (''encountered errors during manifest application:'' @ [CHR 0x0A] @ '' - ''
               @ strings_Join applyErrors ([CHR 0x0A] @ '' - ''))"

definition ApplyManifestFile ::
  "'k kube \<Rightarrow> filesystem \<Rightarrow> string \<Rightarrow> 'k session \<Rightarrow> error option \<times> 'k session" where
  "ApplyManifestFile env fs filePath sess =
     (case os_ReadFile fs filePath of
        Inl err \<Rightarrow> (Some (Errorf (''failed to read manifest file '' @ filePath) err), sess)
      | Inr content \<Rightarrow>
          (case apply_docs env 0 (strings_Split content ''---'') ([], sess) of
             (applyErrors, sess') \<Rightarrow>
               if length applyErrors > 0 then (Some (aggregate_error applyErrors), sess')
               else (None, sess')))"

subsection \<open>Candidate documents\<close>

text \<open>
  The candidate documents of a file's content: the partitions that are not empty once
  trimmed, each trimmed and with its index among all partitions (from 0; the messages count
  from 1). Processing a list of candidates runs the loop body on each, in order.
\<close>

definition candidates :: "string \<Rightarrow> (nat \<times> string) list" where
  "candidates content =
     filter (\<lambda>(i, doc). doc \<noteq> [])
       (map (\<lambda>(i, part). (i, strings_TrimSpace part)) (enumerate 0 (strings_Split content ''---'')))"

fun apply_candidates ::
  "'k kube \<Rightarrow> (nat \<times> string) list \<Rightarrow> string list \<times> 'k session \<Rightarrow> string list \<times> 'k session" where
  "apply_candidates env [] st = st"
| "apply_candidates env ((i, doc) # rest) st = apply_candidates env rest (apply_doc env i doc st)"

text \<open>
  A document of comments only: each of its lines is empty or starts with \<open>#\<close>, leading
  white space apart.
\<close>

definition comment_line :: "string \<Rightarrow> bool" where
  "comment_line l = (case trim_left space_runes l of [] \<Rightarrow> True | c # cs \<Rightarrow> c = CHR ''#'')"

definition comment_only :: "string \<Rightarrow> bool" where
  "comment_only doc = list_all comment_line (strings_Split doc [CHR 0x0A])"

text \<open>
  The state in which the \<open>k\<close>-th candidate is processed (the errors recorded so far and the
  session); the ways in which a document fails in a session: in the conversion from YAML,
  in decoding, for a missing kind or apiVersion, in discovery, or in the apply itself; and
  whether the \<open>k\<close>-th candidate fails where it is processed.
\<close>

definition state_before :: "'k kube \<Rightarrow> string \<Rightarrow> 'k session \<Rightarrow> nat \<Rightarrow> string list \<times> 'k session" where
  "state_before env content sess k =
     apply_candidates env (take k (candidates content)) ([], sess)"

definition doc_fails :: "'k kube \<Rightarrow> string \<Rightarrow> 'k session \<Rightarrow> bool" where
  "doc_fails env doc sess =
     (case YAMLToJSON env doc of
        Inl err \<Rightarrow> True
      | Inr j \<Rightarrow>
          (case UnmarshalJSON env j of
             Inl err \<Rightarrow> True
           | Inr obj \<Rightarrow>
               GetKind obj = [] \<or> GetAPIVersion obj = [] \<or>
               (case findAPIResource env (ObjGroupVersionKind env obj) sess of
                  (Inl err, sess1) \<Rightarrow> True
                | (Inr r, sess1) \<Rightarrow>
                    fst (Patch env (make_request (ObjGroupVersionKind env obj) r obj j)
                           (server sess1)) \<noteq> None)))"

definition recorded_error :: "'k kube \<Rightarrow> string \<Rightarrow> 'k session \<Rightarrow> nat \<Rightarrow> bool" where
  "recorded_error env content sess k =
     (case candidates content ! k of
        (i, doc) \<Rightarrow> doc_fails env doc (snd (state_before env content sess k)))"

text \<open>
  A small cluster and decoder on which the theorems below are exercised: a document
  \<open>kind: K\<close> decodes to an object of kind K in version v1; a document of comments decodes to
  null, which is no object; the cluster knows the kind ConfigMap and counts the patches.
\<close>

definition demo_kube :: "nat kube" where
  "demo_kube =
     \<lparr>YAMLToJSON = (\<lambda>doc.
         if comment_only doc then Inr ''null''
         else if prefix ''kind: '' doc then Inr doc
         else Inl (ErrOther ''yaml: did not find expected key'')),
      UnmarshalJSON = (\<lambda>j.
         if j = ''null''
         then Inl (ErrorMsg (''Object '' @ quoted ''Kind'' @ '' is missing in '' @ quoted ''null''))
         else Inr \<lparr>GetKind = drop 6 j, GetAPIVersion = ''v1'', GetName = ''x'', GetNamespace = []\<rparr>),
      ObjGroupVersionKind = (\<lambda>obj. \<lparr>Group = [], Version = GetAPIVersion obj, Kind = GetKind obj\<rparr>),
      GroupVersion_String = (\<lambda>gvk. Version gvk),
      GroupVersionKind_String = (\<lambda>gvk. ''/'' @ Version gvk @ '', Kind='' @ Kind gvk),
      ServerResourcesForGroupVersion = (\<lambda>gv k.
         (if gv = ''v1''
          then Inr [\<lparr>res_Name = ''configmaps'', res_Namespaced = True, res_Kind = ''ConfigMap''\<rparr>]
          else Inl (ErrOther ''the server could not find the requested resource''), k)),
      Patch = (\<lambda>req k. (None, Suc k))\<rparr>"

definition demo_session :: "nat session" where
  "demo_session = \<lparr>server = 0, issued = []\<rparr>"

definition demo_manifest :: "string \<Rightarrow> filesystem" where
  "demo_manifest content =
     \<lparr>file_at = (\<lambda>p. if p = ''/repo/k8s/app.yaml'' then Content content else Absent),
      write_errors = (\<lambda>p. None)\<rparr>"

definition newline :: string where
  "newline = [CHR 0x0A]"

text \<open>
  The message recorded for document \<open>i\<close> when its JSON form is \<open>null\<close>: the decoder's
  refusal or, should the decoder accept it, the missing kind.
\<close>

definition null_failure :: "'k kube \<Rightarrow> nat \<Rightarrow> string" where
  "null_failure env i =
     (case UnmarshalJSON env ''null'' of
        Inl err \<Rightarrow> doc_label i @ '': JSON unmarshalling failed: '' @ error_text err
      | Inr obj \<Rightarrow> doc_label i @ '' ('' @ GetName obj @ ''): missing kind or apiVersion'')"

text \<open>The manifest files of the examples, and the object and resource of a ConfigMap.\<close>

definition demo_path :: string where
  "demo_path = ''/repo/k8s/app.yaml''"

definition comments_file :: string where
  "comments_file = ''# hello'' @ newline @ ''---'' @ newline @ ''# world''"

definition blank_file :: string where
  "blank_file = ''kind: ConfigMap'' @ newline @ ''---'' @ newline @ ''  '' @ newline @ ''---''
                @ newline @ ''kind: ConfigMap'' @ newline"

definition mixed_file :: string where
  "mixed_file = ''kind: ConfigMap'' @ newline @ ''---'' @ newline @ ''kind: Gadget'' @ newline
                @ ''---'' @ newline @ ''kind: ConfigMap'' @ newline"

definition demo_object :: Unstructured where
  "demo_object = \<lparr>GetKind = ''ConfigMap'', GetAPIVersion = ''v1'', GetName = ''x'', GetNamespace = []\<rparr>"

definition demo_resource :: APIResource where
  "demo_resource = \<lparr>res_Name = ''configmaps'', res_Namespaced = True, res_Kind = ''ConfigMap''\<rparr>"

section \<open>Registry and control plane (packages worker and server)\<close>

text \<open>
  \<^verbatim>\<open>Worker.AddSyncTarget\<close> on the map \<^verbatim>\<open>managedTargets\<close>: an ID that is already managed is
  refused; otherwise the target is entered (and its supervisor started).
\<close>

definition AddSyncTarget ::
  "SyncTarget \<Rightarrow> (string \<rightharpoonup> SyncTarget) \<Rightarrow> error option \<times> (string \<rightharpoonup> SyncTarget)" where
  "AddSyncTarget target managed =
     (case managed (ID target) of
        Some existing \<Rightarrow>
          (Some (ErrorMsg (''target ID '' @ quoted (ID target) @ '' already managed'')), managed)
      | None \<Rightarrow> (None, managed(ID target \<mapsto> target)))"

record Request =
  Method :: string
  Body :: string

datatype payload = Text string | Json "(string \<times> string) list"

record Response =
  StatusCode :: nat
  ResponseBody :: payload

text \<open>\<^verbatim>\<open>http.Error\<close> writes the status and the message followed by a line feed.\<close>

definition http_Error :: "string \<Rightarrow> nat \<Rightarrow> Response" where
  "http_Error msg code = \<lparr>StatusCode = code, ResponseBody = Text (msg @ newline)\<rparr>"

text \<open>
  What the handler is given besides the request: the JSON decoder of the body, the
  identifier \<^verbatim>\<open>uuid.NewString()\<close> draws for this request, and the storage with its codec.
\<close>

record server_env =
  decode_body :: "string \<Rightarrow> error + SyncTarget"
  uuid_NewString :: string
  storage_codec :: codec
  dataStorage :: EncryptedFileStorage

text \<open>
  The state the handler works on: the disk with the catalog, the registry of the worker,
  and the log \<open>save_calls\<close> of the targets \<^verbatim>\<open>SaveSyncTarget\<close> was called with.
\<close>

record server_state =
  disk :: filesystem
  managedTargets :: "string \<rightharpoonup> SyncTarget"
  save_calls :: "SyncTarget list"

definition handleCreateSyncTarget ::
  "server_env \<Rightarrow> Request \<Rightarrow> server_state \<Rightarrow> Response \<times> server_state" where
  "handleCreateSyncTarget env r st =
     (if Method r \<noteq> ''POST'' then (http_Error ''Method not allowed'' 405, st)
      else (case decode_body env (Body r) of
              Inl err \<Rightarrow> (http_Error (''Invalid request body: '' @ error_text err) 400, st)
            | Inr target \<Rightarrow>
                if RepoURL target = [] then (http_Error ''RepoURL is required'' 400, st)
                else if RepoBranch target = [] then (http_Error ''RepoBranch is required'' 400, st)
                else if KubeConfigContent target = []
                then (http_Error ''KubeConfigContent is required'' 400, st)
                else if ManifestPath target = []
                then (http_Error ''ManifestPath is required'' 400, st)
                else (let target1 = (if PollIntervalSeconds target \<le> 0
                                     then target\<lparr>PollIntervalSeconds := 60\<rparr> else target);
                          target2 = target1\<lparr>ID := uuid_NewString env\<rparr>
                      in case SaveSyncTarget (storage_codec env) (dataStorage env) target2 (disk st) of
                           (Some err, fs') \<Rightarrow>
                             (http_Error (''Failed to save sync target: '' @ error_text err) 500,
                              st\<lparr>disk := fs', save_calls := save_calls st @ [target2]\<rparr>)
                         | (None, fs') \<Rightarrow>
                             (let st1 = st\<lparr>disk := fs', save_calls := save_calls st @ [target2]\<rparr>
                              in case AddSyncTarget target2 (managedTargets st1) of
                                   (Some err, managed) \<Rightarrow>
                                     (http_Error
                                        (''Sync target saved, but failed to start processing: ''
                                         @ error_text err) 500, st1)
                                 | (None, managed) \<Rightarrow>
                                     (\<lparr>StatusCode = 201,
                                       ResponseBody =
                                         Json [(''id'', ID target2),
                                               (''message'', ''SyncTarget created successfully'')]\<rparr>,
                                      st1\<lparr>managedTargets := managed\<rparr>)))))"

text \<open>A decoder, an environment and a state on which the theorems below are exercised.\<close>

definition demo_server :: server_env where
  "demo_server =
     \<lparr>decode_body = (\<lambda>body.
         if body = ''no manifest path'' then Inr ((demo_target [] ''u1'')\<lparr>ManifestPath := []\<rparr>)
         else if body = ''nothing'' then Inr ((demo_target [] [])\<lparr>ManifestPath := []\<rparr>)
         else if body = ''complete'' then Inr ((demo_target [] ''u1'')\<lparr>PollIntervalSeconds := 0\<rparr>)
         else Inl (ErrOther ''unexpected end of JSON input'')),
      uuid_NewString = ''7c9e6679-7425-40de-944b-e07fc1f90ae7'',
      storage_codec = demo_codec,
      dataStorage = demo_storage\<rparr>"

definition demo_state :: server_state where
  "demo_state = \<lparr>disk = demo_disk Absent, managedTargets = Map.empty, save_calls = []\<rparr>"

section \<open>Properties of the encrypted catalog\<close>

subsection \<open>The replace-or-append loop\<close>

lemma replace_first_not_found:
  "replace_first ts t = (ts', False) \<Longrightarrow> ts' = ts \<and> ID t \<notin> ID ` set ts"
  by (induction ts arbitrary: ts') (auto split: if_splits prod.splits)

lemma replace_first_found:
  "replace_first ts t = (ts', True) \<Longrightarrow>
     \<exists>i<length ts. ID (ts ! i) = ID t \<and> (\<forall>j<i. ID (ts ! j) \<noteq> ID t) \<and> ts' = ts[i := t]"
proof (induction ts arbitrary: ts')
  case Nil
  then show ?case by simp
next
  case (Cons a ts)
  show ?case
  proof (cases "ID a = ID t")
    case True
    with Cons.prems have "ts' = (a # ts)[0 := t]" by simp
    with True show ?thesis by (intro exI[of _ 0]) simp
  next
    case False
    with Cons.prems obtain us where us: "replace_first ts t = (us, True)" and ts': "ts' = a # us"
      by (auto split: prod.splits)
    from Cons.IH[OF us] obtain i where i: "i < length ts" "ID (ts ! i) = ID t"
      "\<forall>j<i. ID (ts ! j) \<noteq> ID t" "us = ts[i := t]" by blast
    have "\<forall>j<Suc i. ID ((a # ts) ! j) \<noteq> ID t"
      using False i(3) by (auto simp: less_Suc_eq_0_disj)
    with i ts' show ?thesis by (intro exI[of _ "Suc i"]) simp
  qed
qed

lemma upsert_absent:
  assumes "ID t \<notin> ID ` set ts"
  shows "upsert ts t = ts @ [t]"
proof -
  obtain us b where r: "replace_first ts t = (us, b)" by (cases "replace_first ts t")
  show ?thesis
  proof (cases b)
    case True
    with r have "replace_first ts t = (us, True)" by simp
    from replace_first_found[OF this] obtain i where "i < length ts" "ID (ts ! i) = ID t"
      by blast
    then have "ID t \<in> ID ` set ts" by (metis imageI nth_mem)
    with assms show ?thesis by simp
  next
    case False
    with r replace_first_not_found[of ts t us] show ?thesis by (simp add: upsert_def)
  qed
qed

lemma upsert_present:
  assumes "ID t \<in> ID ` set ts"
  shows "\<exists>i<length ts. ID (ts ! i) = ID t \<and> (\<forall>j<i. ID (ts ! j) \<noteq> ID t) \<and> upsert ts t = ts[i := t]"
proof -
  obtain us b where r: "replace_first ts t = (us, b)" by (cases "replace_first ts t")
  show ?thesis
  proof (cases b)
    case True
    with r have r': "replace_first ts t = (us, True)" by simp
    from replace_first_found[OF r'] r' show ?thesis by (simp add: upsert_def)
  next
    case False
    with r have "replace_first ts t = (us, False)" by simp
    from replace_first_not_found[OF this] assms show ?thesis by simp
  qed
qed

lemma replace_first_others:
  "filter (\<lambda>x. ID x \<noteq> ID t) (fst (replace_first ts t)) = filter (\<lambda>x. ID x \<noteq> ID t) ts"
  by (induction ts) (auto split: prod.splits)

lemma upsert_others:
  "filter (\<lambda>x. ID x \<noteq> ID t) (upsert ts t) = filter (\<lambda>x. ID x \<noteq> ID t) ts"
  using replace_first_others[of t ts]
  by (auto simp: upsert_def split: prod.splits)

subsection \<open>Loading\<close>

text \<open>
  Claim C8. Catalog load returns an empty target list and no error when the catalog file is
  missing or has zero length; for a non-empty file it returns the decryption error (wrapped
  as "failed to decrypt data from ...") when decryption fails, and the format error (wrapped
  as "failed to unmarshal sync targets from JSON in ...") when the decrypted bytes do not
  decode into a list of targets.
\<close>

theorem LoadSyncTargets_cases:
  "(file_at fs (FilePath s) = Absent \<longrightarrow> LoadSyncTargets c s fs = ([], None)) \<and>
   (file_at fs (FilePath s) = Content [] \<longrightarrow> LoadSyncTargets c s fs = ([], None)) \<and>
   (\<forall>d e. file_at fs (FilePath s) = Content d \<and> d \<noteq> [] \<and>
          Decrypt c d (EncryptionKey s) = Inl e \<longrightarrow>
      LoadSyncTargets c s fs =
        ([], Some (Errorf (''failed to decrypt data from '' @ quoted (FilePath s)) e))) \<and>
   (\<forall>d p e. file_at fs (FilePath s) = Content d \<and> d \<noteq> [] \<and>
          Decrypt c d (EncryptionKey s) = Inr p \<and> json_Unmarshal c p = Inl e \<longrightarrow>
      LoadSyncTargets c s fs =
        ([], Some (Errorf (''failed to unmarshal sync targets from JSON in ''
                             @ quoted (FilePath s)) e)))"
  by (simp add: LoadSyncTargets_def os_ReadFile_def)

text \<open>The four cases of C8 on a concrete disk and codec.\<close>

theorem LoadSyncTargets_cases_witness:
  "LoadSyncTargets demo_codec demo_storage (demo_disk Absent) = ([], None) \<and>
   LoadSyncTargets demo_codec demo_storage (demo_disk (Content [])) = ([], None) \<and>
   LoadSyncTargets demo_codec demo_storage (demo_disk (Content ''garbage'')) =
     ([], Some (Errorf (''failed to decrypt data from '' @ quoted ''synctargets.json.enc'')
                  (ErrOther ''cipher: message authentication failed''))) \<and>
   LoadSyncTargets demo_codec demo_storage (demo_disk (Content ''enc:{'')) =
     ([], Some (Errorf (''failed to unmarshal sync targets from JSON in ''
                          @ quoted ''synctargets.json.enc'')
                  (ErrOther ''invalid character'')))"
proof -
  have a: "file_at (demo_disk Absent) (FilePath demo_storage) = Absent"
    by (simp add: demo_disk_def demo_storage_def)
  have b: "file_at (demo_disk (Content [])) (FilePath demo_storage) = Content []"
    by (simp add: demo_disk_def demo_storage_def)
  have c: "file_at (demo_disk (Content ''garbage'')) (FilePath demo_storage) = Content ''garbage'' \<and>
           ''garbage'' \<noteq> [] \<and>
           Decrypt demo_codec ''garbage'' (EncryptionKey demo_storage) =
             Inl (ErrOther ''cipher: message authentication failed'')"
    by (simp add: demo_disk_def demo_storage_def demo_codec_def)
  have d: "file_at (demo_disk (Content ''enc:{'')) (FilePath demo_storage) = Content ''enc:{'' \<and>
           ''enc:{'' \<noteq> [] \<and>
           Decrypt demo_codec ''enc:{'' (EncryptionKey demo_storage) = Inr ''{'' \<and>
           json_Unmarshal demo_codec ''{'' = Inl (ErrOther ''invalid character'')"
    by (simp add: demo_disk_def demo_storage_def demo_codec_def)
  from a LoadSyncTargets_cases[of "demo_disk Absent" demo_storage demo_codec]
  have 1: "LoadSyncTargets demo_codec demo_storage (demo_disk Absent) = ([], None)" by blast
  from b LoadSyncTargets_cases[of "demo_disk (Content [])" demo_storage demo_codec]
  have 2: "LoadSyncTargets demo_codec demo_storage (demo_disk (Content [])) = ([], None)" by blast
  from c LoadSyncTargets_cases[of "demo_disk (Content ''garbage'')" demo_storage demo_codec]
  have 3: "LoadSyncTargets demo_codec demo_storage (demo_disk (Content ''garbage'')) =
     ([], Some (Errorf (''failed to decrypt data from '' @ quoted (FilePath demo_storage))
                  (ErrOther ''cipher: message authentication failed'')))" by blast
  from d LoadSyncTargets_cases[of "demo_disk (Content ''enc:{'')" demo_storage demo_codec]
  have 4: "LoadSyncTargets demo_codec demo_storage (demo_disk (Content ''enc:{'')) =
     ([], Some (Errorf (''failed to unmarshal sync targets from JSON in ''
                          @ quoted (FilePath demo_storage))
                  (ErrOther ''invalid character'')))" by blast
  from 1 2 3 4 show ?thesis by (simp add: demo_storage_def)
qed


subsection \<open>Saving one target\<close>

text \<open>
  Claim C9. Save-one is an upsert keyed by ID. Given a successfully loaded list \<open>ts\<close>, the
  list handed to encoding, encryption and the write is \<open>upsert ts t\<close>; if some entry has the
  ID of the argument, the first such entry, and only that position, is replaced in place;
  otherwise the argument is appended at the end; the entries with other IDs are kept as
  they were, in their order.
\<close>

theorem SaveSyncTarget_upsert:
  assumes "LoadSyncTargets c s fs = (ts, None)"
  shows "SaveSyncTarget c s t fs = write_catalog c s (upsert ts t) fs \<and>
         (ID t \<in> ID ` set ts \<longrightarrow>
            (\<exists>i<length ts. ID (ts ! i) = ID t \<and> (\<forall>j<i. ID (ts ! j) \<noteq> ID t) \<and>
                            upsert ts t = ts[i := t])) \<and>
         (ID t \<notin> ID ` set ts \<longrightarrow> upsert ts t = ts @ [t]) \<and>
         filter (\<lambda>x. ID x \<noteq> ID t) (upsert ts t) = filter (\<lambda>x. ID x \<noteq> ID t) ts"
  using assms upsert_present[of t ts] upsert_absent[of t ts] upsert_others[of t ts]
  by (simp add: SaveSyncTarget_def)


text \<open>C9 on a catalog holding the targets a and b, saving a new version of b.\<close>

theorem SaveSyncTarget_upsert_witness:
  "LoadSyncTargets demo_codec demo_storage (demo_disk (Content ''enc:a;b;'')) =
     ([demo_target ''a'' ''u1'', demo_target ''b'' ''u2''], None) \<and>
   upsert [demo_target ''a'' ''u1'', demo_target ''b'' ''u2''] (demo_target ''b'' ''u3'') =
     [demo_target ''a'' ''u1'', demo_target ''b'' ''u3''] \<and>
   SaveSyncTarget demo_codec demo_storage (demo_target ''b'' ''u3'')
       (demo_disk (Content ''enc:a;b;'')) =
     write_catalog demo_codec demo_storage
       [demo_target ''a'' ''u1'', demo_target ''b'' ''u3''] (demo_disk (Content ''enc:a;b;''))"
proof -
  have h: "LoadSyncTargets demo_codec demo_storage (demo_disk (Content ''enc:a;b;'')) =
     ([demo_target ''a'' ''u1'', demo_target ''b'' ''u2''], None)"
    by (simp add: LoadSyncTargets_def os_ReadFile_def demo_disk_def demo_storage_def
        demo_codec_def)
  have u: "upsert [demo_target ''a'' ''u1'', demo_target ''b'' ''u2''] (demo_target ''b'' ''u3'') =
     [demo_target ''a'' ''u1'', demo_target ''b'' ''u3'']"
    by (simp add: upsert_def demo_target_def)
  from SaveSyncTarget_upsert[OF h, of "demo_target ''b'' ''u3''"] h u show ?thesis by simp
qed

text \<open>
  Claim C4, as stated, fails: with an undecryptable, non-empty catalog file, save-one
  returns no error and the file is overwritten by a catalog holding the new target alone.
\<close>

theorem SaveSyncTarget_undecryptable_counterexample:
  "file_at (demo_disk (Content ''garbage'')) (FilePath demo_storage) = Content ''garbage'' \<and>
   Decrypt demo_codec ''garbage'' (EncryptionKey demo_storage) =
     Inl (ErrOther ''cipher: message authentication failed'') \<and>
   fst (SaveSyncTarget demo_codec demo_storage (demo_target ''c'' ''u3'')
          (demo_disk (Content ''garbage''))) = None \<and>
   file_at (snd (SaveSyncTarget demo_codec demo_storage (demo_target ''c'' ''u3'')
                 (demo_disk (Content ''garbage'')))) ''synctargets.json.enc'' = Content ''enc:c;''"
  by (simp add: SaveSyncTarget_def LoadSyncTargets_def os_ReadFile_def write_catalog_def
      os_WriteFile_def upsert_def demo_disk_def demo_storage_def demo_codec_def demo_target_def)

text \<open>
  Claim C4, amended. If the catalog file exists, is non-empty and cannot be decrypted,
  save-one does not return the decryption error: it goes on from an empty list, so that it
  behaves as the encode-encrypt-write of the list holding the new target alone; when
  encoding, encryption and the write succeed it returns no error and the file holds the
  encryption of that one-element list.
\<close>

theorem SaveSyncTarget_undecryptable:
  assumes "file_at fs (FilePath s) = Content d" and "d \<noteq> []"
    and "Decrypt c d (EncryptionKey s) = Inl e"
  shows "SaveSyncTarget c s t fs = write_catalog c s [t] fs \<and>
         (\<forall>j x. json_MarshalIndent c [t] = Inr j \<and> Encrypt c j (EncryptionKey s) = Inr x \<and>
                write_errors fs (FilePath s) = None \<longrightarrow>
            SaveSyncTarget c s t fs =
              (None, fs\<lparr>file_at := (file_at fs)(FilePath s := Content x)\<rparr>))"
  using assms
  by (simp add: SaveSyncTarget_def LoadSyncTargets_def os_ReadFile_def write_catalog_def
      os_WriteFile_def upsert_def)

text \<open>The amended C4 on the undecryptable catalog of the counterexample.\<close>

theorem SaveSyncTarget_undecryptable_witness:
  "SaveSyncTarget demo_codec demo_storage (demo_target ''c'' ''u3'')
       (demo_disk (Content ''garbage'')) =
     (None, (demo_disk (Content ''garbage''))
              \<lparr>file_at := (file_at (demo_disk (Content ''garbage'')))
                          (''synctargets.json.enc'' := Content ''enc:c;'')\<rparr>)"
proof -
  have h1: "file_at (demo_disk (Content ''garbage'')) (FilePath demo_storage) = Content ''garbage''"
    by (simp add: demo_disk_def demo_storage_def)
  have h2: "''garbage'' \<noteq> []" by simp
  have h3: "Decrypt demo_codec ''garbage'' (EncryptionKey demo_storage) =
              Inl (ErrOther ''cipher: message authentication failed'')"
    by (simp add: demo_codec_def)
  have h4: "json_MarshalIndent demo_codec [demo_target ''c'' ''u3''] = Inr ''c;'' \<and>
            Encrypt demo_codec ''c;'' (EncryptionKey demo_storage) = Inr ''enc:c;'' \<and>
            write_errors (demo_disk (Content ''garbage'')) (FilePath demo_storage) = None"
    by (simp add: demo_codec_def demo_target_def demo_disk_def)
  from SaveSyncTarget_undecryptable[OF h1 h2 h3, of "demo_target ''c'' ''u3''"] h4
  have "SaveSyncTarget demo_codec demo_storage (demo_target ''c'' ''u3'')
          (demo_disk (Content ''garbage'')) =
        (None, (demo_disk (Content ''garbage''))
                 \<lparr>file_at := (file_at (demo_disk (Content ''garbage'')))
                             (FilePath demo_storage := Content ''enc:c;'')\<rparr>)"
    by blast
  then show ?thesis by (simp add: demo_storage_def)
qed
section \<open>Properties of the repository worktree and its supervisor\<close>

lemmas demo_defs =
  demo_poller_def demo_world_def slash_join_def demo_tree_def demo_applier_def demo_supervisor_def

lemmas list_defs =
  GetManifestFiles_def WalkDir_def collect_manifest_def os_Stat_def basename_def filepath_Ext_def
  manifest_not_found_def

lemmas poll_defs = Poll_def FetchLatest_def GetCurrentCommitHash_def

subsection \<open>Listing\<close>

lemma walk_collect:
  "readable d \<Longrightarrow>
     walkDir join (collect_manifest gp md) path name d files =
       (None, files @ map fst (filter (\<lambda>(p, n). is_manifest n) (beneath join path name d)))"
  "readable_entries es \<Longrightarrow>
     walkDirs join (collect_manifest gp md) path es files =
       (None, files @ map fst (filter (\<lambda>(p, n). is_manifest n) (beneath_entries join path es)))"
proof (induction join path name d and join path es arbitrary: files and files
       rule: beneath_beneath_entries.induct)
  case (1 join path name)
  then show ?case by (simp add: collect_manifest_def is_manifest_def Let_def)
next
  case (2 join path name err)
  then show ?case by simp
next
  case (3 join path name entries)
  then show ?case by (simp add: collect_manifest_def)
next
  case (4 join path)
  then show ?case by simp
next
  case (5 join path name1 d1 rest)
  then show ?case by simp
qed

lemma collect_error: "\<exists>e'. collect_manifest gp md path d (Some e) files = (Some e', files)"
  by (simp add: collect_manifest_def)

lemma walk_unreadable:
  "\<not> readable d \<Longrightarrow> \<exists>e fs. walkDir join (collect_manifest gp md) path name d files = (Some e, fs)"
  "\<not> readable_entries es \<Longrightarrow> \<exists>e fs. walkDirs join (collect_manifest gp md) path es files = (Some e, fs)"
proof (induction join path name d and join path es arbitrary: files and files
       rule: beneath_beneath_entries.induct)
  case (1 join path name)
  then show ?case by simp
next
  case (2 join path name err)
  then show ?case by (simp add: collect_manifest_def)
next
  case (3 join path name entries)
  then show ?case by (simp add: collect_manifest_def)
next
  case (4 join path)
  then show ?case by simp
next
  case (5 join path name1 d1 rest)
  show ?case
  proof (cases "readable d1")
    case True
    with 5 show ?thesis by (simp add: walk_collect)
  next
    case False
    from 5(1)[OF False] obtain e fs where
      "walkDir join (collect_manifest gp md) (join path name1) name1 d1 files = (Some e, fs)" by blast
    then show ?thesis by simp
  qed
qed

text \<open>
  Claim C5, as stated, fails where it says that a manifest sub-path which does not exist as
  a directory makes the listing fail: when the path names a non-directory file, the walk
  visits that one entry and the listing returns without an error.
\<close>

theorem GetManifestFiles_regular_file_counterexample:
  "lstat (demo_world None (Inr 0x1234) (Entry File))
     (slash_join (localPath demo_poller) (manifestPathInRepo demo_poller)) = Entry File \<and>
   \<not> IsDir File \<and>
   GetManifestFiles slash_join demo_poller (demo_world None (Inr 0x1234) (Entry File)) = Inr []"
  by (simp add: demo_defs list_defs)

text \<open>
  Claim C5, amended. On an initialized poller, when every directory at or beneath the
  manifest sub-path can be read, list-manifests returns exactly the non-directory entries
  at or beneath it whose name has the extension \<open>.yaml\<close> or \<open>.yml\<close> (compared as
  strings, so case-sensitively), in the order of the walk. If the sub-path does not exist
  at all it fails with the "manifest directory not found" error; an existing, empty
  directory gives the empty list and no error; a sub-path that names a non-directory file
  gives no error, and that one path if its extension matches.
\<close>

theorem GetManifestFiles_lists_manifests:
  assumes "repository gp"
  shows "(\<forall>d. lstat w (join (localPath gp) (manifestPathInRepo gp)) = Entry d \<and> readable d \<longrightarrow>
            GetManifestFiles join gp w =
              Inr (manifests_beneath join (join (localPath gp) (manifestPathInRepo gp)) d)) \<and>
         (lstat w (join (localPath gp) (manifestPathInRepo gp)) = NoEntry \<longrightarrow>
            GetManifestFiles join gp w =
              Inl (manifest_not_found gp (join (localPath gp) (manifestPathInRepo gp)))) \<and>
         (lstat w (join (localPath gp) (manifestPathInRepo gp)) = Entry (Dir []) \<longrightarrow>
            GetManifestFiles join gp w = Inr []) \<and>
         (lstat w (join (localPath gp) (manifestPathInRepo gp)) = Entry File \<longrightarrow>
            GetManifestFiles join gp w =
              Inr (if is_manifest (basename (join (localPath gp) (manifestPathInRepo gp)))
                   then [join (localPath gp) (manifestPathInRepo gp)] else []))"
proof -
  let ?md = "join (localPath gp) (manifestPathInRepo gp)"
  have A: "GetManifestFiles join gp w = Inr (manifests_beneath join ?md d)"
    if "lstat w ?md = Entry d" "readable d" for d
    using assms that walk_collect(1)[OF that(2), of join gp ?md ?md "basename ?md" "[]"]
    by (simp add: GetManifestFiles_def WalkDir_def manifests_beneath_def Let_def)
  have B: "GetManifestFiles join gp w = Inl (manifest_not_found gp ?md)"
    if "lstat w ?md = NoEntry"
    using assms that
    by (simp add: GetManifestFiles_def WalkDir_def collect_manifest_def os_Stat_def Let_def)
  have C: "GetManifestFiles join gp w = Inr []" if "lstat w ?md = Entry (Dir [])"
    using A[OF that] by (simp add: manifests_beneath_def)
  have D: "GetManifestFiles join gp w = Inr (if is_manifest (basename ?md) then [?md] else [])"
    if "lstat w ?md = Entry File"
    using A[OF that] by (simp add: manifests_beneath_def)
  from A B C D show ?thesis by blast
qed

text \<open>
  The amended C5 on a worktree with a nested directory and names that must not match, on a
  missing path, on an empty directory, and on a path that names a file.
\<close>

theorem GetManifestFiles_lists_manifests_witness:
  "GetManifestFiles slash_join demo_poller (demo_world None (Inr 0x1234) (Entry demo_tree)) =
     Inr [''/tmp/go-argo-lite-repos/t1/k8s/app.yaml'',
          ''/tmp/go-argo-lite-repos/t1/k8s/nested/cm.yml'',
          ''/tmp/go-argo-lite-repos/t1/k8s/svc.yml''] \<and>
   GetManifestFiles slash_join demo_poller (demo_world None (Inr 0x1234) NoEntry) =
     Inl (manifest_not_found demo_poller ''/tmp/go-argo-lite-repos/t1/k8s'') \<and>
   GetManifestFiles slash_join demo_poller (demo_world None (Inr 0x1234) (Entry (Dir []))) = Inr [] \<and>
   GetManifestFiles slash_join (demo_poller\<lparr>manifestPathInRepo := ''k8s/app.yaml''\<rparr>)
       \<lparr>fetch_outcome = None, head = Inr 0x1234, lstat = (\<lambda>p. Entry File)\<rparr> =
     Inr [''/tmp/go-argo-lite-repos/t1/k8s/app.yaml'']"
proof -
  let ?md = "''/tmp/go-argo-lite-repos/t1/k8s''"
  let ?w = "\<lambda>t. demo_world None (Inr 0x1234) t"
  let ?gf = "demo_poller\<lparr>manifestPathInRepo := ''k8s/app.yaml''\<rparr>"
  let ?wf = "\<lparr>fetch_outcome = None, head = Inr 0x1234, lstat = (\<lambda>p. Entry File)\<rparr>"
  have r: "repository demo_poller" "repository ?gf" by (simp_all add: demo_poller_def)
  have md: "slash_join (localPath demo_poller) (manifestPathInRepo demo_poller) = ?md"
    by (simp add: demo_poller_def slash_join_def)
  have mf: "slash_join (localPath ?gf) (manifestPathInRepo ?gf) = ?md @ ''/app.yaml''"
    by (simp add: demo_poller_def slash_join_def)
  have a: "lstat (?w (Entry demo_tree)) ?md = Entry demo_tree \<and> readable demo_tree"
    by (simp add: demo_world_def demo_tree_def)
  have b: "lstat (?w NoEntry) ?md = NoEntry" by (simp add: demo_world_def)
  have c: "lstat (?w (Entry (Dir []))) ?md = Entry (Dir [])" by (simp add: demo_world_def)
  have d: "lstat ?wf (?md @ ''/app.yaml'') = Entry File" by simp
  have m: "manifests_beneath slash_join ?md demo_tree =
     [''/tmp/go-argo-lite-repos/t1/k8s/app.yaml'',
      ''/tmp/go-argo-lite-repos/t1/k8s/nested/cm.yml'',
      ''/tmp/go-argo-lite-repos/t1/k8s/svc.yml'']"
    by (simp add: manifests_beneath_def demo_tree_def slash_join_def is_manifest_def
        filepath_Ext_def)
  have i: "is_manifest (basename (?md @ ''/app.yaml''))"
    by (simp add: is_manifest_def basename_def filepath_Ext_def)
  from GetManifestFiles_lists_manifests[OF r(1), of "?w (Entry demo_tree)" slash_join] a m
  have 1: "GetManifestFiles slash_join demo_poller (?w (Entry demo_tree)) =
     Inr [''/tmp/go-argo-lite-repos/t1/k8s/app.yaml'',
          ''/tmp/go-argo-lite-repos/t1/k8s/nested/cm.yml'',
          ''/tmp/go-argo-lite-repos/t1/k8s/svc.yml'']"
    unfolding md by simp
  from GetManifestFiles_lists_manifests[OF r(1), of "?w NoEntry" slash_join] b
  have 2: "GetManifestFiles slash_join demo_poller (?w NoEntry) =
     Inl (manifest_not_found demo_poller ?md)"
    unfolding md by simp
  from GetManifestFiles_lists_manifests[OF r(1), of "?w (Entry (Dir []))" slash_join] c
  have 3: "GetManifestFiles slash_join demo_poller (?w (Entry (Dir []))) = Inr []"
    unfolding md by blast
  from GetManifestFiles_lists_manifests[OF r(2), of ?wf slash_join] d i
  have 4: "GetManifestFiles slash_join ?gf ?wf = Inr [''/tmp/go-argo-lite-repos/t1/k8s/app.yaml'']"
    unfolding mf by (simp add: manifests_beneath_def)
  from 1 2 3 4 show ?thesis by blast
qed

subsection \<open>Change detection\<close>

lemma hash_String_nonempty: "hash_String h \<noteq> []"
  by (simp add: hash_String_def)

lemma Poll_keeps_repository: "repository (snd (Poll join gp w)) = repository gp"
  by (simp add: Poll_def Let_def split: option.splits sum.splits)

lemma poller_after_repository: "repository (poller_after join gp ws) = repository gp"
  by (induction ws arbitrary: gp) (simp_all add: Poll_keeps_repository)

lemma Poll_first_records:
  assumes "repository gp" and "lastCommitHash gp = []"
  shows "lastCommitHash (snd (Poll join gp w)) = [] \<longleftrightarrow> fetch_outcome w \<noteq> None \<or> isl (head w)"
  using assms
  by (auto simp: Poll_def Let_def FetchLatest_def GetCurrentCommitHash_def hash_String_nonempty
      split: option.splits sum.splits)

lemma Poll_keeps_recorded:
  assumes "lastCommitHash gp \<noteq> []"
  shows "lastCommitHash (snd (Poll join gp w)) \<noteq> []"
  using assms
  by (auto simp: Poll_def Let_def FetchLatest_def GetCurrentCommitHash_def hash_String_nonempty
      split: option.splits sum.splits if_splits)

lemma poller_after_recorded:
  assumes "lastCommitHash gp \<noteq> []"
  shows "lastCommitHash (poller_after join gp ws) \<noteq> []"
  using assms by (induction ws arbitrary: gp) (simp_all add: Poll_keeps_recorded)

lemma poller_after_first:
  assumes "repository gp" and "lastCommitHash gp = []"
  shows "lastCommitHash (poller_after join gp ws) = [] \<longleftrightarrow>
           (\<forall>v\<in>set ws. fetch_outcome v \<noteq> None \<or> isl (head v))"
  using assms
proof (induction ws arbitrary: gp)
  case Nil
  then show ?case by simp
next
  case (Cons w ws)
  let ?g = "snd (Poll join gp w)"
  have rep: "repository ?g" using Cons.prems(1) by (simp add: Poll_keeps_repository)
  show ?case
  proof (cases "lastCommitHash ?g = []")
    case True
    with Cons.IH[OF rep True] Poll_first_records[OF Cons.prems, of join w]
    show ?thesis by simp
  next
    case False
    with poller_after_recorded[OF False, of join ws] Poll_first_records[OF Cons.prems, of join w]
    show ?thesis by simp
  qed
qed

lemma Poll_success:
  assumes "repository gp"
    and "Poll join gp w = ((changed, commitHash, manifestFiles, None), gp')"
  shows "(\<exists>h. head w = Inr h \<and> commitHash = hash_String h \<and> lastCommitHash gp' = hash_String h) \<and>
         (lastCommitHash gp = [] \<longrightarrow> changed) \<and>
         (lastCommitHash gp \<noteq> [] \<longrightarrow> (changed \<longleftrightarrow> commitHash \<noteq> lastCommitHash gp))"
  using assms
  by (auto simp: Poll_def Let_def FetchLatest_def GetCurrentCommitHash_def
      split: option.splits sum.splits if_splits)

lemma calls_apply_manifests: "calls (apply_manifests ap mfs s) = calls s @ mfs"
  by (induction mfs arbitrary: s) (simp_all split: prod.splits)

lemma poller_apply_manifests: "poller (apply_manifests ap mfs s) = poller s"
  by (induction mfs arbitrary: s) (simp_all split: prod.splits)

lemma different_hashes: "hash_String 0x1234 \<noteq> hash_String 0x1235"
  by code_simp

text \<open>
  Claim C2, as stated, fails: the first successful poll of a sequence need not report a
  change. Here the first poll reads HEAD, records its hash, and fails while listing (an
  input/output error on the manifest directory); the second poll finds the same HEAD,
  succeeds, and reports no change.
\<close>

theorem Poll_first_success_counterexample:
  "snd (snd (snd (fst (Poll slash_join demo_poller
      (demo_world None (Inr 0x1234) (StatErr (ErrOther ''input/output error''))))))) \<noteq> None \<and>
   Poll slash_join
      (snd (Poll slash_join demo_poller
              (demo_world None (Inr 0x1234) (StatErr (ErrOther ''input/output error'')))))
      (demo_world None (Inr 0x1234) (Entry demo_tree)) =
     ((False, hash_String 0x1234, [], None), demo_poller\<lparr>lastCommitHash := hash_String 0x1234\<rparr>)"
  by (simp add: poll_defs demo_defs list_defs hash_String_nonempty)

text \<open>
  Claim C2, amended. Take any sequence of polls \<open>ws\<close> on an initialized repository with no
  hash recorded, followed by a successful poll. The hash it reports is the HEAD hash, and
  this hash is the one recorded afterwards. If every earlier poll failed before HEAD was
  read (in the fetch or in reading HEAD), so that this is the first observation, it reports
  a change whatever the repository holds. Otherwise it reports a change if and only if the
  HEAD hash differs, as a string, from the recorded hash. In the supervisor's tick, no
  change means that no manifest is applied and nothing but the poller changes; a change
  means that the listed manifest files are applied, each once, in the listed order.
\<close>

theorem Poll_change_detection:
  assumes "repository gp0" and "lastCommitHash gp0 = []"
    and "Poll join (poller_after join gp0 ws) w = ((changed, commitHash, manifestFiles, None), gp')"
    and "poller s = poller_after join gp0 ws"
  shows "(\<exists>h. head w = Inr h \<and> commitHash = hash_String h \<and> lastCommitHash gp' = hash_String h) \<and>
         ((\<forall>v\<in>set ws. fetch_outcome v \<noteq> None \<or> isl (head v)) \<longrightarrow> changed) \<and>
         (\<not> (\<forall>v\<in>set ws. fetch_outcome v \<noteq> None \<or> isl (head v)) \<longrightarrow>
            (changed \<longleftrightarrow> commitHash \<noteq> lastCommitHash (poller_after join gp0 ws))) \<and>
         (\<not> changed \<longrightarrow> tick join ap s w = s\<lparr>poller := gp'\<rparr>) \<and>
         (changed \<longrightarrow> tick join ap s w = apply_manifests ap manifestFiles (s\<lparr>poller := gp'\<rparr>)) \<and>
         calls (tick join ap s w) = calls s @ (if changed then manifestFiles else [])"
proof -
  have rep: "repository (poller_after join gp0 ws)"
    using assms(1) by (simp add: poller_after_repository)
  note P = Poll_success[OF rep assms(3)]
  note F = poller_after_first[OF assms(1,2), of join ws]
  have T: "tick join ap s w =
             (if changed then apply_manifests ap manifestFiles (s\<lparr>poller := gp'\<rparr>)
              else s\<lparr>poller := gp'\<rparr>)"
    using assms(3,4) by (simp add: tick_def)
  have C: "calls (tick join ap s w) = calls s @ (if changed then manifestFiles else [])"
    by (simp add: T calls_apply_manifests)
  from P F T C show ?thesis by simp
qed

text \<open>
  The amended C2 after a failed fetch (first observation: a change, one file applied) and
  after a successful first poll at the same commit (no change, nothing applied).
\<close>

theorem Poll_change_detection_witness:
  "Poll slash_join
       (poller_after slash_join demo_poller
          [demo_world (Some (ErrOther ''connection refused'')) (Inr 0x1234) (Entry demo_tree)])
       (demo_world None (Inr 0x1234) (Entry (Dir [(''app.yaml'', File)]))) =
     ((True, hash_String 0x1234, [''/tmp/go-argo-lite-repos/t1/k8s/app.yaml''], None),
      demo_poller\<lparr>lastCommitHash := hash_String 0x1234\<rparr>) \<and>
   calls (tick slash_join demo_applier
            (demo_supervisor (poller_after slash_join demo_poller
               [demo_world (Some (ErrOther ''connection refused'')) (Inr 0x1234) (Entry demo_tree)]))
            (demo_world None (Inr 0x1234) (Entry (Dir [(''app.yaml'', File)])))) =
     [''/tmp/go-argo-lite-repos/t1/k8s/app.yaml''] \<and>
   Poll slash_join
       (poller_after slash_join demo_poller
          [demo_world None (Inr 0x1234) (Entry (Dir [(''app.yaml'', File)]))])
       (demo_world None (Inr 0x1234) (Entry (Dir [(''app.yaml'', File)]))) =
     ((False, hash_String 0x1234, [], None), demo_poller\<lparr>lastCommitHash := hash_String 0x1234\<rparr>) \<and>
   calls (tick slash_join demo_applier
            (demo_supervisor (poller_after slash_join demo_poller
               [demo_world None (Inr 0x1234) (Entry (Dir [(''app.yaml'', File)]))]))
            (demo_world None (Inr 0x1234) (Entry (Dir [(''app.yaml'', File)])))) = []"
proof -
  let ?bad = "demo_world (Some (ErrOther ''connection refused'')) (Inr 0x1234) (Entry demo_tree)"
  let ?w = "demo_world None (Inr 0x1234) (Entry (Dir [(''app.yaml'', File)]))"
  let ?g = "demo_poller\<lparr>lastCommitHash := hash_String 0x1234\<rparr>"
  let ?f = "[''/tmp/go-argo-lite-repos/t1/k8s/app.yaml'']"
  have h1: "repository demo_poller" and h2: "lastCommitHash demo_poller = []"
    by (simp_all add: demo_poller_def)
  have a1: "poller_after slash_join demo_poller [?bad] = demo_poller"
    by (simp add: poll_defs demo_poller_def demo_world_def)
  have a2: "poller_after slash_join demo_poller [?w] = ?g"
    by (simp add: poll_defs demo_poller_def demo_world_def slash_join_def list_defs)
  have p1: "Poll slash_join (poller_after slash_join demo_poller [?bad]) ?w =
              ((True, hash_String 0x1234, ?f, None), ?g)"
    unfolding a1 by (simp add: poll_defs demo_poller_def demo_world_def slash_join_def list_defs)
  have p2: "Poll slash_join (poller_after slash_join demo_poller [?w]) ?w =
              ((False, hash_String 0x1234, [], None), ?g)"
    unfolding a2 by (simp add: poll_defs demo_poller_def demo_world_def hash_String_nonempty)
  have s1: "poller (demo_supervisor (poller_after slash_join demo_poller [?bad])) =
              poller_after slash_join demo_poller [?bad]"
    and s2: "poller (demo_supervisor (poller_after slash_join demo_poller [?w])) =
              poller_after slash_join demo_poller [?w]"
    by (simp_all add: demo_supervisor_def)
  have c0: "calls (demo_supervisor gp) = []" for gp by (simp add: demo_supervisor_def)
  from Poll_change_detection[OF h1 h2 p1 s1, of demo_applier]
  have "calls (tick slash_join demo_applier
              (demo_supervisor (poller_after slash_join demo_poller [?bad])) ?w) =
        calls (demo_supervisor (poller_after slash_join demo_poller [?bad])) @
          (if True then ?f else [])"
    by blast
  then have t1: "calls (tick slash_join demo_applier
              (demo_supervisor (poller_after slash_join demo_poller [?bad])) ?w) = ?f"
    by (simp only: c0 if_True append_Nil)
  from Poll_change_detection[OF h1 h2 p2 s2, of demo_applier]
  have "calls (tick slash_join demo_applier
              (demo_supervisor (poller_after slash_join demo_poller [?w])) ?w) =
        calls (demo_supervisor (poller_after slash_join demo_poller [?w])) @
          (if False then [] else [])"
    by blast
  then have t2: "calls (tick slash_join demo_applier
              (demo_supervisor (poller_after slash_join demo_poller [?w])) ?w) = []"
    by (simp only: c0 if_False append_Nil)
  from p1 t1 p2 t2 show ?thesis by blast
qed

subsection \<open>A commit whose manifests cannot be listed\<close>

lemma Poll_same_head:
  assumes "lastCommitHash g = hash_String h" and "\<forall>h'. head v = Inr h' \<longrightarrow> h' = h"
  shows "snd (Poll join g v) = g \<and> \<not> fst (fst (Poll join g v)) \<and>
         (\<exists>c err. fst (Poll join g v) = (False, c, [], err))"
  using assms
  by (auto simp: Poll_def Let_def FetchLatest_def GetCurrentCommitHash_def hash_String_nonempty
      split: option.splits sum.splits)

lemma tick_same_head:
  assumes "lastCommitHash (poller s) = hash_String h" and "\<forall>h'. head v = Inr h' \<longrightarrow> h' = h"
  shows "tick join ap s v = s"
proof -
  from Poll_same_head[OF assms, of join] obtain c err where
    "Poll join (poller s) v = ((False, c, [], err), poller s)"
    by (metis prod.collapse)
  then show ?thesis by (cases err) (simp_all add: tick_def)
qed

lemma run_ticks_same_head:
  assumes "lastCommitHash (poller s) = hash_String h"
    and "\<forall>v\<in>set ws. \<forall>h'. head v = Inr h' \<longrightarrow> h' = h"
  shows "run_ticks join ap s ws = s"
  using assms by (induction ws) (simp_all add: tick_same_head)

text \<open>
  Claim C10. Poll stores the new HEAD hash before it enumerates the manifest files. If a
  new commit is detected and listing fails, Poll returns an error (with changed = true and
  no files) and the hash is already recorded; the tick applies nothing. On every later tick
  at which the remote is unchanged (HEAD, where it can be read, is still that commit) no
  change is reported, nothing is applied, and the supervisor's state stays as it is: the
  manifests of that commit are not applied until a different commit appears.
\<close>

theorem Poll_records_hash_before_listing:
  assumes "repository gp" and "lastCommitHash gp \<noteq> []"
    and "fetch_outcome w = None" and "head w = Inr h"
    and "hash_String h \<noteq> lastCommitHash gp"
    and "GetManifestFiles join (gp\<lparr>lastCommitHash := hash_String h\<rparr>) w = Inl e"
    and "poller s = gp"
    and "\<forall>v\<in>set ws. \<forall>h'. head v = Inr h' \<longrightarrow> h' = h"
  shows "Poll join gp w =
           ((True, hash_String h, [],
             Some (Errorf ''new commit detected, but failed to list manifest files'' e)),
            gp\<lparr>lastCommitHash := hash_String h\<rparr>) \<and>
         tick join ap s w = s\<lparr>poller := gp\<lparr>lastCommitHash := hash_String h\<rparr>\<rparr> \<and>
         run_ticks join ap (tick join ap s w) ws = tick join ap s w \<and>
         calls (run_ticks join ap (tick join ap s w) ws) = calls s \<and>
         cluster (run_ticks join ap (tick join ap s w) ws) = cluster s \<and>
         (\<forall>v\<in>set ws. \<not> fst (fst (Poll join (gp\<lparr>lastCommitHash := hash_String h\<rparr>) v)))"
proof -
  have P: "Poll join gp w =
           ((True, hash_String h, [],
             Some (Errorf ''new commit detected, but failed to list manifest files'' e)),
            gp\<lparr>lastCommitHash := hash_String h\<rparr>)"
    using assms(1-6) by (simp add: Poll_def FetchLatest_def GetCurrentCommitHash_def Let_def)
  have T: "tick join ap s w = s\<lparr>poller := gp\<lparr>lastCommitHash := hash_String h\<rparr>\<rparr>"
    using P assms(7) by (simp add: tick_def)
  have L: "lastCommitHash (poller (tick join ap s w)) = hash_String h"
    by (simp add: T)
  have R: "run_ticks join ap (tick join ap s w) ws = tick join ap s w"
    using run_ticks_same_head[OF L assms(8)] .
  have N: "\<forall>v\<in>set ws. \<not> fst (fst (Poll join (gp\<lparr>lastCommitHash := hash_String h\<rparr>) v))"
  proof
    fix v assume "v \<in> set ws"
    with assms(8) have "\<forall>h'. head v = Inr h' \<longrightarrow> h' = h" by blast
    from Poll_same_head[OF _ this, of "gp\<lparr>lastCommitHash := hash_String h\<rparr>" join]
    show "\<not> fst (fst (Poll join (gp\<lparr>lastCommitHash := hash_String h\<rparr>) v))" by simp
  qed
  from P T R N show ?thesis by (simp add: T)
qed

text \<open>
  C10 on a poller that has recorded one commit and meets the next one while the manifest
  directory is missing, followed by three ticks at that same commit.
\<close>

theorem Poll_records_hash_before_listing_witness:
  "Poll slash_join (demo_poller\<lparr>lastCommitHash := hash_String 0x1234\<rparr>)
       (demo_world None (Inr 0x1235) NoEntry) =
     ((True, hash_String 0x1235, [],
       Some (Errorf ''new commit detected, but failed to list manifest files''
               (manifest_not_found demo_poller ''/tmp/go-argo-lite-repos/t1/k8s''))),
      demo_poller\<lparr>lastCommitHash := hash_String 0x1235\<rparr>) \<and>
   calls (run_ticks slash_join demo_applier
            (tick slash_join demo_applier
               (demo_supervisor (demo_poller\<lparr>lastCommitHash := hash_String 0x1234\<rparr>))
               (demo_world None (Inr 0x1235) NoEntry))
            [demo_world None (Inr 0x1235) (Entry demo_tree),
             demo_world (Some (ErrOther ''connection refused'')) (Inr 0x1235) (Entry demo_tree),
             demo_world None (Inr 0x1235) (Entry demo_tree)]) = [] \<and>
   \<not> fst (fst (Poll slash_join (demo_poller\<lparr>lastCommitHash := hash_String 0x1235\<rparr>)
                  (demo_world None (Inr 0x1235) (Entry demo_tree))))"
proof -
  let ?gp = "demo_poller\<lparr>lastCommitHash := hash_String 0x1234\<rparr>"
  let ?w = "demo_world None (Inr 0x1235) NoEntry"
  let ?ws = "[demo_world None (Inr 0x1235) (Entry demo_tree),
             demo_world (Some (ErrOther ''connection refused'')) (Inr 0x1235) (Entry demo_tree),
             demo_world None (Inr 0x1235) (Entry demo_tree)]"
  let ?e = "manifest_not_found demo_poller ''/tmp/go-argo-lite-repos/t1/k8s''"
  have h1: "repository ?gp" by (simp add: demo_poller_def)
  have h2: "lastCommitHash ?gp \<noteq> []" by (simp add: hash_String_nonempty)
  have h3: "fetch_outcome ?w = None" by (simp add: demo_world_def)
  have h4: "head ?w = Inr 0x1235" by (simp add: demo_world_def)
  have h5: "hash_String 0x1235 \<noteq> lastCommitHash ?gp" using different_hashes by simp
  have h6: "GetManifestFiles slash_join (?gp\<lparr>lastCommitHash := hash_String 0x1235\<rparr>) ?w = Inl ?e"
    by (simp add: demo_defs list_defs)
  have h7: "poller (demo_supervisor ?gp) = ?gp" by (simp add: demo_supervisor_def)
  have h8: "\<forall>v\<in>set ?ws. \<forall>h'. head v = Inr h' \<longrightarrow> h' = 0x1235" by (simp add: demo_world_def)
  note X = Poll_records_hash_before_listing[OF h1 h2 h3 h4 h5 h6 h7 h8, of demo_applier]
  from X have c1: "Poll slash_join ?gp ?w =
     ((True, hash_String 0x1235, [],
       Some (Errorf ''new commit detected, but failed to list manifest files'' ?e)),
      ?gp\<lparr>lastCommitHash := hash_String 0x1235\<rparr>)" by blast
  from X have c2: "calls (run_ticks slash_join demo_applier
            (tick slash_join demo_applier (demo_supervisor ?gp) ?w) ?ws) =
          calls (demo_supervisor ?gp)" by blast
  have c3: "calls (demo_supervisor ?gp) = []" by (simp add: demo_supervisor_def)
  from X have "\<forall>v\<in>set ?ws.
      \<not> fst (fst (Poll slash_join (?gp\<lparr>lastCommitHash := hash_String 0x1235\<rparr>) v))" by blast
  then have c4: "\<not> fst (fst (Poll slash_join (?gp\<lparr>lastCommitHash := hash_String 0x1235\<rparr>)
                  (demo_world None (Inr 0x1235) (Entry demo_tree))))" by simp
  have g: "?gp\<lparr>lastCommitHash := hash_String 0x1235\<rparr> =
           demo_poller\<lparr>lastCommitHash := hash_String 0x1235\<rparr>" by simp
  from c1 c2 c3 c4 show ?thesis unfolding g by (simp only: simp_thms)
qed

section \<open>Properties of the cluster applier\<close>

subsection \<open>Splitting at the separator\<close>

lemma Index_None: "strings_Index s sep = None \<Longrightarrow> \<not> sublist sep s"
  by (induction s) (auto simp: sublist_Cons_right split: if_splits)

lemma Index_Some_split:
  "strings_Index s sep = Some m \<Longrightarrow> s = take m s @ sep @ drop (m + length sep) s"
proof (induction s arbitrary: m)
  case Nil
  then show ?case by (simp split: if_splits)
next
  case (Cons c cs)
  show ?case
  proof (cases "prefix sep (c # cs)")
    case True
    with Cons.prems have "m = 0" by simp
    moreover from True obtain r where "c # cs = sep @ r" by (auto simp: prefix_def)
    ultimately show ?thesis by simp
  next
    case False
    with Cons.prems obtain m' where m': "strings_Index cs sep = Some m'" "m = Suc m'" by auto
    from Cons.IH[OF m'(1)] m'(2) show ?thesis by simp
  qed
qed

lemma Index_Some_first:
  "strings_Index s sep = Some m \<Longrightarrow> sep \<noteq> [] \<Longrightarrow> \<not> sublist sep (take m s)"
proof (induction s arbitrary: m)
  case Nil
  then show ?case by simp
next
  case (Cons c cs)
  show ?case
  proof (cases "prefix sep (c # cs)")
    case True
    with Cons.prems show ?thesis by simp
  next
    case False
    with Cons.prems obtain m' where m': "strings_Index cs sep = Some m'" "m = Suc m'" by auto
    have "\<not> prefix sep (c # take m' cs)"
    proof
      assume "prefix sep (c # take m' cs)"
      moreover have "prefix (c # take m' cs) (c # cs)" by (simp add: take_is_prefix)
      ultimately have "prefix sep (c # cs)" by (rule prefix_order.trans)
      with False show False by simp
    qed
    with Cons.IH[OF m'(1) Cons.prems(2)] m'(2) show ?thesis
      by (simp add: sublist_Cons_right)
  qed
qed

lemma Split_last: "strings_Index s sep = None \<Longrightarrow> strings_Split s sep = [s]"
  by (subst strings_Split.simps) simp

lemma Split_step:
  "sep \<noteq> [] \<Longrightarrow> strings_Index s sep = Some m \<Longrightarrow>
     strings_Split s sep = take m s # strings_Split (drop (m + length sep) s) sep"
  by (subst strings_Split.simps) simp

lemma Split_not_Nil: "strings_Split s sep \<noteq> []"
  by (subst strings_Split.simps) (simp split: option.splits)

lemma Join_Cons: "xs \<noteq> [] \<Longrightarrow> strings_Join (a # xs) sep = a @ sep @ strings_Join xs sep"
  by (cases xs) simp_all

lemma Join_Split: "sep \<noteq> [] \<Longrightarrow> strings_Join (strings_Split s sep) sep = s"
proof (induction s sep rule: strings_Split.induct)
  case (1 s sep)
  show ?case
  proof (cases "strings_Index s sep")
    case None
    then show ?thesis by (simp add: Split_last)
  next
    case (Some m)
    from "1.IH"[OF "1.prems" Some "1.prems"]
    have "strings_Join (strings_Split (drop (m + length sep) s) sep) sep = drop (m + length sep) s" .
    then have "strings_Join (strings_Split s sep) sep = take m s @ sep @ drop (m + length sep) s"
      by (simp add: Split_step[OF "1.prems" Some] Join_Cons Split_not_Nil)
    with Index_Some_split[OF Some] show ?thesis by simp
  qed
qed

lemma Split_parts_free:
  "sep \<noteq> [] \<Longrightarrow> part \<in> set (strings_Split s sep) \<Longrightarrow> \<not> sublist sep part"
proof (induction s sep rule: strings_Split.induct)
  case (1 s sep)
  show ?case
  proof (cases "strings_Index s sep")
    case None
    with "1.prems" have "part = s" by (simp add: Split_last)
    with Index_None[OF None] show ?thesis by simp
  next
    case (Some m)
    with "1.prems" have "part = take m s \<or> part \<in> set (strings_Split (drop (m + length sep) s) sep)"
      by (simp add: Split_step)
    then show ?thesis
    proof
      assume "part = take m s"
      with Index_Some_first[OF Some "1.prems"(1)] show ?thesis by simp
    next
      assume "part \<in> set (strings_Split (drop (m + length sep) s) sep)"
      from "1.IH"[OF "1.prems"(1) Some "1.prems"(1) this] show ?thesis .
    qed
  qed
qed

lemma apply_docs_candidates:
  "apply_docs env i parts st =
     apply_candidates env
       (filter (\<lambda>(i, doc). doc \<noteq> [])
          (map (\<lambda>(i, part). (i, strings_TrimSpace part)) (enumerate i parts))) st"
  by (induction parts arbitrary: i st) (simp_all add: Let_def)

lemma candidates_docs:
  "map snd (candidates content) =
     filter (\<lambda>doc. doc \<noteq> []) (map strings_TrimSpace (strings_Split content ''---''))"
proof -
  have "map snd (filter (\<lambda>(i, doc). doc \<noteq> [])
          (map (\<lambda>(i, part). (i, strings_TrimSpace part)) (enumerate n parts))) =
        filter (\<lambda>doc. doc \<noteq> []) (map strings_TrimSpace parts)" for n parts
    by (induction parts arbitrary: n) simp_all
  then show ?thesis by (simp add: candidates_def)
qed

subsection \<open>The loop over the documents\<close>

lemma apply_doc_errs:
  "apply_doc env i d (errs, s) =
     (errs @ fst (apply_doc env i d ([], s)), snd (apply_doc env i d ([], s)))"
  by (simp add: apply_doc_def Let_def split: sum.splits prod.splits option.splits)

lemma apply_doc_fails: "fst (apply_doc env i doc ([], s)) \<noteq> [] \<longleftrightarrow> doc_fails env doc s"
  by (simp add: apply_doc_def doc_fails_def Let_def split: sum.splits prod.splits option.splits)

lemma apply_candidates_append:
  "apply_candidates env (xs @ ys) st = apply_candidates env ys (apply_candidates env xs st)"
  by (induction env xs st rule: apply_candidates.induct) simp_all

lemma apply_candidates_snoc:
  "apply_candidates env (xs @ [(i, d)]) st = apply_doc env i d (apply_candidates env xs st)"
  by (simp add: apply_candidates_append)

lemma issued_findAPIResource:
  "findAPIResource env gvk s = (r, s') \<Longrightarrow> \<exists>more. issued s' = issued s @ more"
  by (auto simp: findAPIResource_def Let_def split: prod.splits sum.splits option.splits)

lemma issued_apply_doc: "\<exists>more. issued (snd (apply_doc env i d (errs, s))) = issued s @ more"
  by (auto simp: apply_doc_def Let_def split: sum.splits prod.splits option.splits
      dest!: issued_findAPIResource)

lemma issued_apply_candidates:
  "\<exists>more. issued (snd (apply_candidates env cs st)) = issued (snd st) @ more"
proof (induction cs arbitrary: st)
  case Nil
  then show ?case by simp
next
  case (Cons c cs)
  obtain i d where c: "c = (i, d)" by (cases c)
  obtain errs s where st: "st = (errs, s)" by (cases st)
  from issued_apply_doc[of env i d errs s] obtain m1 where
    "issued (snd (apply_doc env i d st)) = issued (snd st) @ m1" by (auto simp: st)
  moreover from Cons.IH[of "apply_doc env i d st"] obtain m2 where
    "issued (snd (apply_candidates env cs (apply_doc env i d st))) =
       issued (snd (apply_doc env i d st)) @ m2" by blast
  ultimately show ?case by (simp add: c)
qed

lemma errors_apply_candidates:
  "fst (apply_candidates env cs st) \<noteq> [] \<longleftrightarrow>
     fst st \<noteq> [] \<or>
     (\<exists>k<length cs. fst (apply_doc env (fst (cs ! k)) (snd (cs ! k))
                           ([], snd (apply_candidates env (take k cs) st))) \<noteq> [])"
proof (induction cs rule: rev_induct)
  case Nil
  then show ?case by simp
next
  case (snoc c cs)
  obtain i d where c: "c = (i, d)" by (cases c)
  obtain errs s where a: "apply_candidates env cs st = (errs, s)"
    by (cases "apply_candidates env cs st")
  have last: "fst (apply_candidates env (cs @ [c]) st) \<noteq> [] \<longleftrightarrow>
          errs \<noteq> [] \<or> fst (apply_doc env i d ([], s)) \<noteq> []"
    using apply_doc_errs[of env i d errs s] by (simp add: c apply_candidates_snoc a)
  have mid: "(\<exists>k<length (cs @ [c]). fst (apply_doc env (fst ((cs @ [c]) ! k)) (snd ((cs @ [c]) ! k))
                           ([], snd (apply_candidates env (take k (cs @ [c])) st))) \<noteq> []) \<longleftrightarrow>
        (\<exists>k<length cs. fst (apply_doc env (fst (cs ! k)) (snd (cs ! k))
                           ([], snd (apply_candidates env (take k cs) st))) \<noteq> []) \<or>
        fst (apply_doc env i d ([], s)) \<noteq> []"
    (is "?L \<longleftrightarrow> ?M \<or> ?N")
  proof
    assume ?L
    then obtain k where k: "k < Suc (length cs)"
      "fst (apply_doc env (fst ((cs @ [c]) ! k)) (snd ((cs @ [c]) ! k))
                           ([], snd (apply_candidates env (take k (cs @ [c])) st))) \<noteq> []" by auto
    show "?M \<or> ?N"
    proof (cases "k < length cs")
      case True
      with k(2) have "fst (apply_doc env (fst (cs ! k)) (snd (cs ! k))
                           ([], snd (apply_candidates env (take k cs) st))) \<noteq> []"
        by (simp add: nth_append)
      with True show ?thesis by blast
    next
      case False
      with k(1) have "k = length cs" by simp
      with k(2) show ?thesis by (simp add: c a)
    qed
  next
    assume "?M \<or> ?N"
    then show ?L
    proof
      assume ?M
      then obtain k where "k < length cs" "fst (apply_doc env (fst (cs ! k)) (snd (cs ! k))
                           ([], snd (apply_candidates env (take k cs) st))) \<noteq> []" by blast
      then show ?L by (intro exI[of _ k]) (simp add: nth_append)
    next
      assume ?N
      then show ?L by (intro exI[of _ "length cs"]) (simp add: c a)
    qed
  qed
  have IH': "errs \<noteq> [] \<longleftrightarrow> fst st \<noteq> [] \<or>
     (\<exists>k<length cs. fst (apply_doc env (fst (cs ! k)) (snd (cs ! k))
                           ([], snd (apply_candidates env (take k cs) st))) \<noteq> [])"
    using snoc.IH a by simp
  from last IH' mid show ?case by blast
qed

lemma apply_doc_request:
  assumes "YAMLToJSON env doc = Inr j" and "UnmarshalJSON env j = Inr obj"
    and "GetKind obj \<noteq> []" and "GetAPIVersion obj \<noteq> []"
    and "findAPIResource env (ObjGroupVersionKind env obj) s = (Inr r, s1)"
  shows "Apply (make_request (ObjGroupVersionKind env obj) r obj j)
           \<in> set (issued (snd (apply_doc env i doc (errs, s))))"
  using assms by (simp add: apply_doc_def Let_def split: prod.splits option.splits)

lemma ApplyManifestFile_candidates:
  assumes "os_ReadFile fs filePath = Inr content"
  shows "ApplyManifestFile env fs filePath sess =
           (case apply_candidates env (candidates content) ([], sess) of
              (applyErrors, sess') \<Rightarrow>
                (if applyErrors = [] then None else Some (aggregate_error applyErrors), sess'))"
  using assms
  by (simp add: ApplyManifestFile_def apply_docs_candidates candidates_def split: prod.splits)

lemma state_before_step:
  assumes "k < length (candidates content)"
  shows "state_before env content sess (Suc k) =
           (case candidates content ! k of
              (i, doc) \<Rightarrow> apply_doc env i doc (state_before env content sess k))"
proof -
  obtain i doc where c: "candidates content ! k = (i, doc)" by (cases "candidates content ! k")
  from assms have "take (Suc k) (candidates content) = take k (candidates content) @ [(i, doc)]"
    by (simp add: take_Suc_conv_app_nth c)
  then show ?thesis by (simp add: state_before_def apply_candidates_snoc c)
qed

lemma state_before_final:
  "apply_candidates env (candidates content) ([], sess) =
     state_before env content sess (length (candidates content))"
  by (simp add: state_before_def)

lemma issued_after_step:
  assumes "k < length cs"
  shows "set (issued (snd (apply_candidates env (take (Suc k) cs) st)))
           \<subseteq> set (issued (snd (apply_candidates env cs st)))"
proof -
  have "cs = take (Suc k) cs @ drop (Suc k) cs" by simp
  then have "apply_candidates env cs st =
               apply_candidates env (drop (Suc k) cs) (apply_candidates env (take (Suc k) cs) st)"
    by (metis apply_candidates_append)
  with issued_apply_candidates[of env "drop (Suc k) cs" "apply_candidates env (take (Suc k) cs) st"]
  show ?thesis by auto
qed

lemma comment_doc:
  assumes "YAMLToJSON env doc = Inr ''null''"
    and "case UnmarshalJSON env ''null'' of Inl err \<Rightarrow> True | Inr obj \<Rightarrow> GetKind obj = []"
  shows "apply_doc env i doc (errs, s) = (errs @ [null_failure env i], s)"
  using assms by (simp add: apply_doc_def null_failure_def split: sum.splits)

lemma comment_candidates:
  assumes "\<forall>(i, doc)\<in>set cs. YAMLToJSON env doc = Inr ''null''"
    and "case UnmarshalJSON env ''null'' of Inl err \<Rightarrow> True | Inr obj \<Rightarrow> GetKind obj = []"
  shows "apply_candidates env cs (errs, s) = (errs @ map (\<lambda>(i, doc). null_failure env i) cs, s)"
  using assms(1)
proof (induction cs arbitrary: errs)
  case Nil
  then show ?case by simp
next
  case (Cons c cs)
  obtain i doc where c: "c = (i, doc)" by (cases c)
  with Cons.prems have y: "YAMLToJSON env doc = Inr ''null''" by simp
  from Cons.prems have "\<forall>(i, doc)\<in>set cs. YAMLToJSON env doc = Inr ''null''" by simp
  from Cons.IH[OF this] show ?case
    by (simp add: c comment_doc[OF y assms(2)])
qed

lemma read_demo: "os_ReadFile (demo_manifest content) demo_path = Inr content"
  by (simp add: os_ReadFile_def demo_manifest_def demo_path_def)

subsection \<open>Candidate documents\<close>

text \<open>
  Claim C1, as stated, fails: the file's content is cut at every occurrence of the three
  characters \<open>---\<close>, not only at lines equal to \<open>---\<close>. The content \<open>k: a---b\<close> is one
  line, which is not \<open>---\<close>, and yet it gives two candidate documents.
\<close>

theorem ApplyManifestFile_partitions_counterexample:
  "strings_Split ''k: a---b'' newline = [''k: a---b''] \<and>
   strings_Split ''k: a---b'' ''---'' = [''k: a'', ''b''] \<and>
   candidates ''k: a---b'' = [(0, ''k: a''), (1, ''b'')]"
  by code_simp

text \<open>
  Claim C1, amended. For every manifest file that can be read, apply-file cuts the content
  at each occurrence of the string \<open>---\<close>, found from left to right, wherever it occurs
  (also inside a line): joining the partitions with \<open>---\<close> gives the content back, and no
  partition contains \<open>---\<close>. The candidate documents are the partitions that are non-empty
  after trimming surrounding white space, trimmed and in order; empty partitions are
  skipped without a trace: apply-file is the loop body run on the candidates, one after the
  other, and nothing else.
\<close>

theorem ApplyManifestFile_partitions:
  assumes "os_ReadFile fs filePath = Inr content"
  shows "strings_Join (strings_Split content ''---'') ''---'' = content \<and>
         (\<forall>part\<in>set (strings_Split content ''---''). \<not> sublist ''---'' part) \<and>
         map snd (candidates content) =
           filter (\<lambda>doc. doc \<noteq> []) (map strings_TrimSpace (strings_Split content ''---'')) \<and>
         ApplyManifestFile env fs filePath sess =
           (case apply_candidates env (candidates content) ([], sess) of
              (applyErrors, sess') \<Rightarrow>
                (if applyErrors = [] then None else Some (aggregate_error applyErrors), sess'))"
proof -
  have s: "''---'' \<noteq> []" by simp
  have a: "strings_Join (strings_Split content ''---'') ''---'' = content"
    by (rule Join_Split[OF s])
  have b: "\<forall>part\<in>set (strings_Split content ''---''). \<not> sublist ''---'' part"
    using Split_parts_free[OF s] by blast
  from a b candidates_docs[of content] ApplyManifestFile_candidates[OF assms, of env sess]
  show ?thesis by blast
qed

text \<open>
  The amended C1 on a file of two documents with a blank partition between them.
\<close>

theorem ApplyManifestFile_partitions_witness:
  "map snd (candidates blank_file) = [''kind: ConfigMap'', ''kind: ConfigMap''] \<and>
   ApplyManifestFile demo_kube (demo_manifest blank_file) demo_path demo_session =
     (None,
      \<lparr>server = 2,
       issued = [Discovery ''v1'',
                 Apply \<lparr>Resource = ([], ''v1'', ''configmaps''), Namespace = Some ''default'',
                        PatchName = ''x'', PatchType = ''application/apply-patch+yaml'',
                        PatchData = ''kind: ConfigMap'', FieldManager = ''go-argo-lite'',
                        Force = True\<rparr>,
                 Discovery ''v1'',
                 Apply \<lparr>Resource = ([], ''v1'', ''configmaps''), Namespace = Some ''default'',
                        PatchName = ''x'', PatchType = ''application/apply-patch+yaml'',
                        PatchData = ''kind: ConfigMap'', FieldManager = ''go-argo-lite'',
                        Force = True\<rparr>]\<rparr>)"
proof -
  have f: "filter (\<lambda>doc. doc \<noteq> []) (map strings_TrimSpace (strings_Split blank_file ''---'')) =
             [''kind: ConfigMap'', ''kind: ConfigMap'']"
    by code_simp
  have a: "apply_candidates demo_kube (candidates blank_file) ([], demo_session) =
     ([],
      \<lparr>server = 2,
       issued = [Discovery ''v1'',
                 Apply \<lparr>Resource = ([], ''v1'', ''configmaps''), Namespace = Some ''default'',
                        PatchName = ''x'', PatchType = ''application/apply-patch+yaml'',
                        PatchData = ''kind: ConfigMap'', FieldManager = ''go-argo-lite'',
                        Force = True\<rparr>,
                 Discovery ''v1'',
                 Apply \<lparr>Resource = ([], ''v1'', ''configmaps''), Namespace = Some ''default'',
                        PatchName = ''x'', PatchType = ''application/apply-patch+yaml'',
                        PatchData = ''kind: ConfigMap'', FieldManager = ''go-argo-lite'',
                        Force = True\<rparr>]\<rparr>)"
    by code_simp
  from ApplyManifestFile_partitions[OF read_demo, of blank_file demo_kube demo_session]
  show ?thesis by (simp add: f a)
qed

subsection \<open>Partial failure\<close>

text \<open>
  Claim C3. For a manifest file that can be read, apply-file returns the aggregate error
  if and only if at least one candidate document recorded an error (in the conversion from
  YAML, in decoding, for a missing kind or apiVersion, in discovery, or in the apply
  itself), and returns no error otherwise. A failure of one document never prevents the
  later ones from being processed: each candidate is processed in the state the earlier
  ones left, whatever they did, and a candidate that converts, decodes, names kind and
  apiVersion and whose resource is discovered has its apply request issued to the cluster.
\<close>

theorem ApplyManifestFile_aggregate:
  assumes "os_ReadFile fs filePath = Inr content"
  shows "fst (ApplyManifestFile env fs filePath sess) =
           (if \<exists>k<length (candidates content). recorded_error env content sess k
            then Some (aggregate_error
                         (fst (state_before env content sess (length (candidates content)))))
            else None) \<and>
         snd (ApplyManifestFile env fs filePath sess) =
           snd (state_before env content sess (length (candidates content))) \<and>
         (\<forall>k<length (candidates content).
            state_before env content sess (Suc k) =
              (case candidates content ! k of
                 (i, doc) \<Rightarrow> apply_doc env i doc (state_before env content sess k))) \<and>
         (\<forall>k<length (candidates content). \<forall>i doc j obj r s1.
            candidates content ! k = (i, doc) \<and>
            YAMLToJSON env doc = Inr j \<and> UnmarshalJSON env j = Inr obj \<and>
            GetKind obj \<noteq> [] \<and> GetAPIVersion obj \<noteq> [] \<and>
            findAPIResource env (ObjGroupVersionKind env obj)
              (snd (state_before env content sess k)) = (Inr r, s1) \<longrightarrow>
            Apply (make_request (ObjGroupVersionKind env obj) r obj j)
              \<in> set (issued (snd (ApplyManifestFile env fs filePath sess))))"
proof -
  let ?cs = "candidates content"
  let ?final = "state_before env content sess (length ?cs)"
  have A: "ApplyManifestFile env fs filePath sess =
             (if fst ?final = [] then None else Some (aggregate_error (fst ?final)), snd ?final)"
    using ApplyManifestFile_candidates[OF assms, of env sess]
    by (simp add: state_before_final split: prod.splits)
  have E: "fst ?final \<noteq> [] \<longleftrightarrow> (\<exists>k<length ?cs. recorded_error env content sess k)"
    using errors_apply_candidates[of env ?cs "([], sess)"]
    by (simp add: state_before_def recorded_error_def split_beta apply_doc_fails)
  have 1: "fst (ApplyManifestFile env fs filePath sess) =
           (if \<exists>k<length ?cs. recorded_error env content sess k
            then Some (aggregate_error (fst ?final)) else None)"
  proof (cases "fst ?final = []")
    case True
    with E have "\<not> (\<exists>k<length ?cs. recorded_error env content sess k)" by blast
    with A True show ?thesis by simp
  next
    case False
    with E have "\<exists>k<length ?cs. recorded_error env content sess k" by blast
    with A False show ?thesis by simp
  qed
  have 2: "snd (ApplyManifestFile env fs filePath sess) = snd ?final"
    using A by simp
  have 3: "\<forall>k<length ?cs. state_before env content sess (Suc k) =
              (case ?cs ! k of (i, doc) \<Rightarrow> apply_doc env i doc (state_before env content sess k))"
    using state_before_step by blast
  have 4: "Apply (make_request (ObjGroupVersionKind env obj) r obj j)
              \<in> set (issued (snd (ApplyManifestFile env fs filePath sess)))"
    if k: "k < length ?cs" and c: "?cs ! k = (i, doc)"
      and y: "YAMLToJSON env doc = Inr j" and u: "UnmarshalJSON env j = Inr obj"
      and g: "GetKind obj \<noteq> []" "GetAPIVersion obj \<noteq> []"
      and f: "findAPIResource env (ObjGroupVersionKind env obj)
                (snd (state_before env content sess k)) = (Inr r, s1)"
    for k i doc j obj r s1
  proof -
    obtain errs s where sb: "state_before env content sess k = (errs, s)"
      by (cases "state_before env content sess k")
    from f sb have f': "findAPIResource env (ObjGroupVersionKind env obj) s = (Inr r, s1)" by simp
    have "Apply (make_request (ObjGroupVersionKind env obj) r obj j)
            \<in> set (issued (snd (apply_doc env i doc (errs, s))))"
      by (rule apply_doc_request[OF y u g f'])
    then have "Apply (make_request (ObjGroupVersionKind env obj) r obj j)
            \<in> set (issued (snd (state_before env content sess (Suc k))))"
      using state_before_step[OF k, of env sess] c sb by simp
    moreover have "set (issued (snd (state_before env content sess (Suc k))))
            \<subseteq> set (issued (snd ?final))"
      using issued_after_step[OF k, of env "([], sess)"] by (simp add: state_before_def)
    ultimately show ?thesis using 2 by auto
  qed
  from 1 2 3 4 show ?thesis by blast
qed

text \<open>
  C3 on a file of three documents, the middle one of a kind the cluster does not know: the
  aggregate error lists document 2 alone, and the request for document 3 was issued.
\<close>

theorem ApplyManifestFile_aggregate_witness:
  "fst (ApplyManifestFile demo_kube (demo_manifest mixed_file) demo_path demo_session) =
     Some (aggregate_error
             [''doc #2 GVK /v1, Kind=Gadget: API discovery failed: resource kind ''
                @ quoted ''Gadget'' @ '' not found in group version '' @ quoted ''v1'']) \<and>
   Apply (make_request (ObjGroupVersionKind demo_kube demo_object) demo_resource demo_object
            ''kind: ConfigMap'')
     \<in> set (issued (snd (ApplyManifestFile demo_kube (demo_manifest mixed_file) demo_path
                             demo_session)))"
proof -
  note T = ApplyManifestFile_aggregate[OF read_demo, where content = mixed_file and env = demo_kube
      and sess = demo_session]
  have l: "length (candidates mixed_file) = 3" by code_simp
  have r: "recorded_error demo_kube mixed_file demo_session 1" by code_simp
  have s: "fst (state_before demo_kube mixed_file demo_session 3) =
             [''doc #2 GVK /v1, Kind=Gadget: API discovery failed: resource kind ''
                @ quoted ''Gadget'' @ '' not found in group version '' @ quoted ''v1'']"
    by code_simp
  have e: "\<exists>k<length (candidates mixed_file). recorded_error demo_kube mixed_file demo_session k"
    using l r by (intro exI[of _ 1]) simp
  from T have "fst (ApplyManifestFile demo_kube (demo_manifest mixed_file) demo_path demo_session) =
           (if \<exists>k<length (candidates mixed_file). recorded_error demo_kube mixed_file demo_session k
            then Some (aggregate_error
                   (fst (state_before demo_kube mixed_file demo_session
                           (length (candidates mixed_file)))))
            else None)" by blast
  with e have 1: "fst (ApplyManifestFile demo_kube (demo_manifest mixed_file) demo_path demo_session) =
     Some (aggregate_error
             [''doc #2 GVK /v1, Kind=Gadget: API discovery failed: resource kind ''
                @ quoted ''Gadget'' @ '' not found in group version '' @ quoted ''v1''])"
    by (simp only: if_True l s)
  have c: "candidates mixed_file ! 2 = (2, ''kind: ConfigMap'')" by code_simp
  have y: "YAMLToJSON demo_kube ''kind: ConfigMap'' = Inr ''kind: ConfigMap''" by code_simp
  have u: "UnmarshalJSON demo_kube ''kind: ConfigMap'' = Inr demo_object" by code_simp
  have g: "GetKind demo_object \<noteq> []" "GetAPIVersion demo_object \<noteq> []"
    by (simp_all add: demo_object_def)
  have "fst (findAPIResource demo_kube (ObjGroupVersionKind demo_kube demo_object)
               (snd (state_before demo_kube mixed_file demo_session 2))) = Inr demo_resource"
    by code_simp
  then obtain s1 where f: "findAPIResource demo_kube (ObjGroupVersionKind demo_kube demo_object)
               (snd (state_before demo_kube mixed_file demo_session 2)) = (Inr demo_resource, s1)"
    by (metis prod.collapse)
  have k: "2 < length (candidates mixed_file)" by (simp add: l)
  from T k c y u g f
  have 2: "Apply (make_request (ObjGroupVersionKind demo_kube demo_object) demo_resource demo_object
            ''kind: ConfigMap'')
     \<in> set (issued (snd (ApplyManifestFile demo_kube (demo_manifest mixed_file) demo_path
                             demo_session)))"
    by blast
  from 1 2 show ?thesis by blast
qed

subsection \<open>Files of comments\<close>

text \<open>
  Claim C6. Take a file with at least one candidate document, whose candidate documents
  hold comments only, a YAML converter that turns such documents into \<open>null\<close>, and a
  decoder that either refuses \<open>null\<close> or yields an object without a kind. Then apply-file
  returns the aggregate error with one entry for each document, the decoder's refusal or
  the missing kind, and the session is as before: no request at all, neither discovery nor
  apply, was issued to the cluster.
\<close>

theorem ApplyManifestFile_comments_only:
  assumes "os_ReadFile fs filePath = Inr content"
    and "candidates content \<noteq> []"
    and "\<forall>(i, doc)\<in>set (candidates content). comment_only doc"
    and "\<forall>doc. comment_only doc \<longrightarrow> YAMLToJSON env doc = Inr ''null''"
    and "case UnmarshalJSON env ''null'' of Inl err \<Rightarrow> True | Inr obj \<Rightarrow> GetKind obj = []"
  shows "ApplyManifestFile env fs filePath sess =
           (Some (aggregate_error (map (\<lambda>(i, doc). null_failure env i) (candidates content))),
            sess)"
proof -
  from assms(3,4) have "\<forall>(i, doc)\<in>set (candidates content). YAMLToJSON env doc = Inr ''null''"
    by auto
  from comment_candidates[OF this assms(5), of "[]" sess]
  have "apply_candidates env (candidates content) ([], sess) =
          (map (\<lambda>(i, doc). null_failure env i) (candidates content), sess)" by simp
  with ApplyManifestFile_candidates[OF assms(1), of env sess] assms(2) show ?thesis by simp
qed

text \<open>C6 on the file \<open># hello\<close>, \<open>---\<close>, \<open># world\<close>.\<close>

theorem ApplyManifestFile_comments_only_witness:
  "ApplyManifestFile demo_kube (demo_manifest comments_file) demo_path demo_session =
     (Some (aggregate_error
        [''doc #1: JSON unmarshalling failed: Object '' @ quoted ''Kind'' @ '' is missing in ''
           @ quoted ''null'',
         ''doc #2: JSON unmarshalling failed: Object '' @ quoted ''Kind'' @ '' is missing in ''
           @ quoted ''null'']),
      demo_session)"
proof -
  have cands: "candidates comments_file = [(0, ''# hello''), (1, ''# world'')]"
    by code_simp
  have co: "comment_only ''# hello''" "comment_only ''# world''"
    by code_simp+
  have h2: "candidates comments_file \<noteq> []" by (simp add: cands)
  have h3: "\<forall>(i, doc)\<in>set (candidates comments_file). comment_only doc"
    by (simp add: cands co)
  have h4: "\<forall>doc. comment_only doc \<longrightarrow> YAMLToJSON demo_kube doc = Inr ''null''"
    by (simp add: demo_kube_def)
  have h5: "case UnmarshalJSON demo_kube ''null'' of Inl err \<Rightarrow> True | Inr obj \<Rightarrow> GetKind obj = []"
    by (simp add: demo_kube_def)
  have n: "null_failure demo_kube 0 =
             ''doc #1: JSON unmarshalling failed: Object '' @ quoted ''Kind'' @ '' is missing in ''
               @ quoted ''null''"
          "null_failure demo_kube 1 =
             ''doc #2: JSON unmarshalling failed: Object '' @ quoted ''Kind'' @ '' is missing in ''
               @ quoted ''null''"
    by code_simp+
  from ApplyManifestFile_comments_only[OF read_demo h2 h3 h4 h5, of demo_session]
  show ?thesis by (simp only: cands list.map prod.case n)
qed

section \<open>Properties of the control plane\<close>

text \<open>
  Claim C7. For every POST request whose decoded target has an empty \<open>repo_url\<close>,
  \<open>repo_branch\<close>, \<open>manifest_path\<close> or cluster-credentials blob, the handler answers 400
  with a plain-text reason, the reason of the first empty field in the order in which the
  handler checks them, and leaves the state as it was: the catalog on disk, the registry
  and the log of save calls. When \<open>manifest_path\<close> is the empty field and the other three
  are given, the body is "ManifestPath is required" and a line feed. Persistence is
  attempted only after every required field has passed: if a call of save-one was made, or
  the disk changed, the request was a POST whose four required fields are all non-empty.
\<close>

theorem handleCreateSyncTarget_validation:
  "(Method r = ''POST'' \<and> decode_body env (Body r) = Inr target \<and>
    (RepoURL target = [] \<or> RepoBranch target = [] \<or> ManifestPath target = [] \<or>
     KubeConfigContent target = []) \<longrightarrow>
      StatusCode (fst (handleCreateSyncTarget env r st)) = 400 \<and>
      snd (handleCreateSyncTarget env r st) = st \<and>
      ResponseBody (fst (handleCreateSyncTarget env r st)) \<in>
        {Text (''RepoURL is required'' @ newline), Text (''RepoBranch is required'' @ newline),
         Text (''KubeConfigContent is required'' @ newline),
         Text (''ManifestPath is required'' @ newline)}) \<and>
   (Method r = ''POST'' \<and> decode_body env (Body r) = Inr target \<and>
    RepoURL target \<noteq> [] \<and> RepoBranch target \<noteq> [] \<and> KubeConfigContent target \<noteq> [] \<and>
    ManifestPath target = [] \<longrightarrow>
      ResponseBody (fst (handleCreateSyncTarget env r st)) =
        Text (''ManifestPath is required'' @ newline)) \<and>
   (save_calls (snd (handleCreateSyncTarget env r st)) \<noteq> save_calls st \<or>
    disk (snd (handleCreateSyncTarget env r st)) \<noteq> disk st \<longrightarrow>
      (\<exists>t. Method r = ''POST'' \<and> decode_body env (Body r) = Inr t \<and>
           RepoURL t \<noteq> [] \<and> RepoBranch t \<noteq> [] \<and> KubeConfigContent t \<noteq> [] \<and>
           ManifestPath t \<noteq> []))"
proof -
  have 1: "StatusCode (fst (handleCreateSyncTarget env r st)) = 400 \<and>
      snd (handleCreateSyncTarget env r st) = st \<and>
      ResponseBody (fst (handleCreateSyncTarget env r st)) \<in>
        {Text (''RepoURL is required'' @ newline), Text (''RepoBranch is required'' @ newline),
         Text (''KubeConfigContent is required'' @ newline),
         Text (''ManifestPath is required'' @ newline)}"
    if "Method r = ''POST''" "decode_body env (Body r) = Inr target"
      "RepoURL target = [] \<or> RepoBranch target = [] \<or> ManifestPath target = [] \<or>
       KubeConfigContent target = []"
    using that by (auto simp: handleCreateSyncTarget_def http_Error_def)
  have 2: "ResponseBody (fst (handleCreateSyncTarget env r st)) =
        Text (''ManifestPath is required'' @ newline)"
    if "Method r = ''POST''" "decode_body env (Body r) = Inr target"
      "RepoURL target \<noteq> []" "RepoBranch target \<noteq> []" "KubeConfigContent target \<noteq> []"
      "ManifestPath target = []"
    using that by (simp add: handleCreateSyncTarget_def http_Error_def)
  have 3: "\<exists>t. Method r = ''POST'' \<and> decode_body env (Body r) = Inr t \<and>
           RepoURL t \<noteq> [] \<and> RepoBranch t \<noteq> [] \<and> KubeConfigContent t \<noteq> [] \<and>
           ManifestPath t \<noteq> []"
    if "save_calls (snd (handleCreateSyncTarget env r st)) \<noteq> save_calls st \<or>
        disk (snd (handleCreateSyncTarget env r st)) \<noteq> disk st"
    using that
    by (auto simp: handleCreateSyncTarget_def split: if_splits sum.splits)
  from 1 2 3 show ?thesis by blast
qed

text \<open>
  C7 on a request without a manifest path, on a request with neither URL nor manifest path,
  and on a complete request, which does reach save-one.
\<close>

theorem handleCreateSyncTarget_validation_witness:
  "StatusCode (fst (handleCreateSyncTarget demo_server \<lparr>Method = ''POST'', Body = ''no manifest path''\<rparr>
                      demo_state)) = 400 \<and>
   ResponseBody (fst (handleCreateSyncTarget demo_server
                        \<lparr>Method = ''POST'', Body = ''no manifest path''\<rparr> demo_state)) =
     Text (''ManifestPath is required'' @ newline) \<and>
   snd (handleCreateSyncTarget demo_server \<lparr>Method = ''POST'', Body = ''no manifest path''\<rparr>
          demo_state) = demo_state \<and>
   StatusCode (fst (handleCreateSyncTarget demo_server \<lparr>Method = ''POST'', Body = ''nothing''\<rparr>
                      demo_state)) = 400 \<and>
   snd (handleCreateSyncTarget demo_server \<lparr>Method = ''POST'', Body = ''nothing''\<rparr> demo_state) =
     demo_state \<and>
   save_calls (snd (handleCreateSyncTarget demo_server \<lparr>Method = ''POST'', Body = ''complete''\<rparr>
                      demo_state)) \<noteq> save_calls demo_state \<and>
   (\<exists>t. decode_body demo_server ''complete'' = Inr t \<and> RepoURL t \<noteq> [] \<and> RepoBranch t \<noteq> [] \<and>
        KubeConfigContent t \<noteq> [] \<and> ManifestPath t \<noteq> [])"
proof -
  let ?r1 = "\<lparr>Method = ''POST'', Body = ''no manifest path''\<rparr>"
  let ?r2 = "\<lparr>Method = ''POST'', Body = ''nothing''\<rparr>"
  let ?r3 = "\<lparr>Method = ''POST'', Body = ''complete''\<rparr>"
  let ?t1 = "(demo_target [] ''u1'')\<lparr>ManifestPath := []\<rparr>"
  let ?t2 = "(demo_target [] [])\<lparr>ManifestPath := []\<rparr>"
  have h1: "Method ?r1 = ''POST'' \<and> decode_body demo_server (Body ?r1) = Inr ?t1 \<and>
            RepoURL ?t1 \<noteq> [] \<and> RepoBranch ?t1 \<noteq> [] \<and> KubeConfigContent ?t1 \<noteq> [] \<and>
            ManifestPath ?t1 = []"
    by (simp add: demo_server_def demo_target_def)
  have h2: "Method ?r2 = ''POST'' \<and> decode_body demo_server (Body ?r2) = Inr ?t2 \<and>
            RepoURL ?t2 = []"
    by (simp add: demo_server_def demo_target_def)
  have h3: "save_calls (snd (handleCreateSyncTarget demo_server ?r3 demo_state))
              \<noteq> save_calls demo_state"
    by (auto simp: handleCreateSyncTarget_def demo_server_def demo_target_def demo_state_def
        Let_def AddSyncTarget_def split: prod.splits option.splits)
  note A = handleCreateSyncTarget_validation[of ?r1 demo_server ?t1 demo_state]
  note B = handleCreateSyncTarget_validation[of ?r2 demo_server ?t2 demo_state]
  note C = handleCreateSyncTarget_validation[of ?r3 demo_server ?t1 demo_state]
  from A h1 have a: "StatusCode (fst (handleCreateSyncTarget demo_server ?r1 demo_state)) = 400"
    "snd (handleCreateSyncTarget demo_server ?r1 demo_state) = demo_state"
    "ResponseBody (fst (handleCreateSyncTarget demo_server ?r1 demo_state)) =
       Text (''ManifestPath is required'' @ newline)"
    by blast+
  from B h2 have b: "StatusCode (fst (handleCreateSyncTarget demo_server ?r2 demo_state)) = 400"
    "snd (handleCreateSyncTarget demo_server ?r2 demo_state) = demo_state"
    by blast+
  from C h3 have c: "\<exists>t. decode_body demo_server ''complete'' = Inr t \<and> RepoURL t \<noteq> [] \<and>
        RepoBranch t \<noteq> [] \<and> KubeConfigContent t \<noteq> [] \<and> ManifestPath t \<noteq> []"
    by auto
  from a b h3 c show ?thesis by blast
qed

end
